theory Spec2Isabelle
  imports Complex_Main
begin

section \<open>Conventions of the embedding\<close>

text \<open>
  The theory embeds \<^verbatim>\<open>src/src/geomag.c\<close> and \<^verbatim>\<open>src/include/geomag.h\<close>.

  \<^item> A C \<^verbatim>\<open>double\<close> is a \<^typ>\<open>real\<close>: rounding, infinities, NaN and signed zeros
    are not modelled, and a division by zero has HOL's value 0.
  \<^item> A C \<^verbatim>\<open>int\<close> is an \<^typ>\<open>int\<close>; every integer the code computes is bounded by
    a small multiple of \<^verbatim>\<open>WMM_MAX_SIZE\<close> squared, so no wrap-around occurs.
  \<^item> An array is a total function on its indices, a two-dimensional array
    \<^verbatim>\<open>a[i][j]\<close> a function \<open>a i j\<close>.
  \<^item> A pointer argument is an \<^typ>\<open>'a option\<close>, \<open>None\<close> the null pointer; a function
    returns its return code together with the objects it may have written.
  \<^item> Struct fields carry a prefix (\<open>gm_\<close>, \<open>r_\<close>, \<open>u_\<close>) since the one-letter field names
    of the source would capture variables; the local \<open>by\<close> is \<open>b_y\<close>, and \<open>bx\<close>, \<open>bz\<close>
    follow it.
  \<^item> A local array without initialiser whose cells are all written before they are
    read starts as the zero function; the array \<open>snorm\<close> of \<^verbatim>\<open>load_coefficients\<close>,
    which is copied whole into the model, starts with contents given as a parameter.
  \<^item> Messages written to \<^verbatim>\<open>stderr\<close> are not modelled.
\<close>

section \<open>Constants and macros\<close>

definition WMM_SIZE_STANDARD :: int where
  "WMM_SIZE_STANDARD = 12"

definition WMM_SIZE_HIGH_RESOLUTION :: int where
  "WMM_SIZE_HIGH_RESOLUTION = 133"

definition BLACKOUT_ZONE :: real where
  "BLACKOUT_ZONE = 2000"

definition CAUTION_ZONE :: real where
  "CAUTION_ZONE = 6000"

definition WGS84_A :: real where
  "WGS84_A = 6378.137"

definition WGS84_B :: real where
  "WGS84_B = 6356.7523142"

definition WGS84_RE :: real where
  "WGS84_RE = 6371.2"

definition WMM_MODEL_2015_LOWER :: real where
  "WMM_MODEL_2015_LOWER = 2015"

definition WMM_MODEL_2015_UPPER :: real where
  "WMM_MODEL_2015_UPPER = 2020"

definition WMM_MODEL_2020_LOWER :: real where
  "WMM_MODEL_2020_LOWER = 2020"

definition WMM_MODEL_2020_UPPER :: real where
  "WMM_MODEL_2020_UPPER = 2025"

definition WMM_MODEL_2025_LOWER :: real where
  "WMM_MODEL_2025_LOWER = 2025"

definition WMM_MODEL_2025_UPPER :: real where
  "WMM_MODEL_2025_UPPER = 2030"

text \<open>\<^verbatim>\<open>M_PI\<close> is \<^term>\<open>pi\<close>.\<close>

definition DEG2RAD :: "real \<Rightarrow> real" where
  "DEG2RAD deg = deg * pi / 180"

definition RAD2DEG :: "real \<Rightarrow> real" where
  "RAD2DEG rad = rad * 180 / pi"

text \<open>
  The C library's \<^verbatim>\<open>atan2(y, x)\<close> over the reals: the angle of the point \<open>(x, y)\<close> in
  \<open>(-pi, pi]\<close>, and 0 at the origin. At the origin the C function tells the signs of
  the zeros apart (\<^verbatim>\<open>atan2(+0.0, +0.0)\<close> is 0, \<^verbatim>\<open>atan2(+0.0, -0.0)\<close> is \<open>pi\<close>), which the
  reals cannot: of a field vector that is exactly zero, the model has the value the
  code computes when \<open>bx\<close> is \<open>+0.0\<close>.
\<close>

definition atan2 :: "real \<Rightarrow> real \<Rightarrow> real" where
  "atan2 y x =
     (if 0 < x then arctan (y / x)
      else if x < 0 then (if 0 \<le> y then arctan (y / x) + pi else arctan (y / x) - pi)
      else if 0 < y then pi / 2
      else if y < 0 then - (pi / 2)
      else 0)"

text \<open>The assignment \<^verbatim>\<open>a[i][j] = v\<close>.\<close>

definition upd2 :: "(int \<Rightarrow> int \<Rightarrow> real) \<Rightarrow> int \<Rightarrow> int \<Rightarrow> real \<Rightarrow> int \<Rightarrow> int \<Rightarrow> real" where
  "upd2 a i j v = a(i := (a i)(j := v))"

section \<open>The structures of geomag.h\<close>

record GeoMagResult =
  r_time :: real
  r_alt :: real
  r_glat :: real
  r_glon :: real
  r_x :: real
  r_y :: real
  r_z :: real
  r_h :: real
  r_f :: real
  r_i :: real
  r_d :: real
  r_gv :: real
  r_in_blackout_zone :: bool
  r_in_caution_zone :: bool
  r_is_high_resolution :: bool

record GeoMagUncertainty =
  u_x :: real
  u_y :: real
  u_z :: real
  u_h :: real
  u_f :: real
  u_i :: real
  u_d :: real

record GeoMag =
  gm_maxord :: int
  gm_size :: int
  gm_epoch :: real
  gm_model :: string
  gm_release_date :: string
  gm_c :: "int \<Rightarrow> int \<Rightarrow> real"
  gm_cd :: "int \<Rightarrow> int \<Rightarrow> real"
  gm_k :: "int \<Rightarrow> int \<Rightarrow> real"
  gm_fn :: "int \<Rightarrow> real"
  gm_fm :: "int \<Rightarrow> real"
  gm_p :: "int \<Rightarrow> real"

section \<open>The coefficient file\<close>

text \<open>
  What the \<^verbatim>\<open>fscanf\<close> calls of \<^verbatim>\<open>load_coefficients\<close> read from the file: the header
  (\<open>None\<close> when the first call does not convert three items; \<open>file_header_items\<close> then
  holds the items it did convert, the epoch and after it the model name), then the
  records that convert six items each; the list ends where a call converts fewer (the
  end of the file or a line of another shape). A file system maps a path to the file
  \<^verbatim>\<open>fopen\<close> opens, \<open>None\<close> when it fails.
\<close>

record coef_header =
  hdr_epoch :: real
  hdr_model :: string
  hdr_release_date :: string

record coef_record =
  rec_n :: int
  rec_m :: int
  rec_gnm :: real
  rec_hnm :: real
  rec_dgnm :: real
  rec_dhnm :: real

record coef_file =
  file_header :: "coef_header option"
  file_header_items :: "real option \<times> string option"
  file_records :: "coef_record list"

type_synonym file_system = "string \<Rightarrow> coef_file option"

section \<open>load\_coefficients\<close>

text \<open>Lines 77 to 85: the body of the reading loop after the checks.\<close>

definition store_coefficients :: "coef_record \<Rightarrow> GeoMag \<Rightarrow> GeoMag" where
  "store_coefficients r g =
     (let n = rec_n r; m = rec_m r in
      if m \<le> n then
        (let g1 = g\<lparr>gm_c := upd2 (gm_c g) m n (rec_gnm r)\<rparr>;
             g2 = g1\<lparr>gm_cd := upd2 (gm_cd g1) m n (rec_dgnm r)\<rparr>
         in if m \<noteq> 0 then
              (let g3 = g2\<lparr>gm_c := upd2 (gm_c g2) n (m - 1) (rec_hnm r)\<rparr>
               in g3\<lparr>gm_cd := upd2 (gm_cd g3) n (m - 1) (rec_dhnm r)\<rparr>)
            else g2)
      else g)"

text \<open>
  Lines 54 to 86, the loop \<^verbatim>\<open>while (1)\<close>. \<open>Inl g\<close>: the function returns \<open>-1\<close> from
  inside the loop (a corrupt record), the structure being \<open>g\<close>; \<open>Inr g\<close>: the loop is
  left by a \<^verbatim>\<open>break\<close>.
\<close>

fun read_records :: "GeoMag \<Rightarrow> coef_record list \<Rightarrow> GeoMag + GeoMag" where
  "read_records g [] = Inr g"
| "read_records g (r # rs) =
     (if rec_n r = 9999 then Inr g
      else if rec_m r > gm_maxord g then Inr g
      else if rec_m r > rec_n r \<or> rec_m r < 0 \<or> rec_n r \<ge> gm_size g \<or> rec_m r \<ge> gm_size g
        then Inl g
      else read_records (store_coefficients r g) rs)"

text \<open>
  Lines 103 to 117: one turn of the loop \<^verbatim>\<open>while (D2 > 0)\<close> at degree \<open>n\<close> and order
  \<open>m\<close>; the state is \<open>j\<close>, the structure and the local array \<open>snorm\<close>.
\<close>

definition norm_body :: "int \<Rightarrow> int \<Rightarrow> int \<times> GeoMag \<times> (int \<Rightarrow> real) \<Rightarrow> int \<times> GeoMag \<times> (int \<Rightarrow> real)" where
  "norm_body n m js =
     (case js of (j, g, snorm) \<Rightarrow>
       (let g1 = g\<lparr>gm_k := upd2 (gm_k g) m n
                   (real_of_int ((n - 1) * (n - 1) - m * m) / real_of_int ((2 * n - 1) * (2 * n - 3)))\<rparr>;
            (j1, g2, snorm1) =
              (if m > 0 then
                 (let flnmj = real_of_int ((n - m + 1) * j) / real_of_int (n + m);
                      sn = snorm(n + m * gm_size g1 := snorm (n + (m - 1) * gm_size g1) * sqrt flnmj);
                      ga = g1\<lparr>gm_c := upd2 (gm_c g1) n (m - 1) (sn (n + m * gm_size g1) * gm_c g1 n (m - 1))\<rparr>;
                      gb = ga\<lparr>gm_cd := upd2 (gm_cd ga) n (m - 1) (sn (n + m * gm_size ga) * gm_cd ga n (m - 1))\<rparr>
                  in (1, gb, sn))
               else (j, g1, snorm));
            g3 = g2\<lparr>gm_c := upd2 (gm_c g2) m n (snorm1 (n + m * gm_size g2) * gm_c g2 m n)\<rparr>;
            g4 = g3\<lparr>gm_cd := upd2 (gm_cd g3) m n (snorm1 (n + m * gm_size g3) * gm_cd g3 m n)\<rparr>
        in (j1, g4, snorm1)))"

function norm_inner :: "int \<Rightarrow> int \<Rightarrow> int \<Rightarrow> int \<times> GeoMag \<times> (int \<Rightarrow> real) \<Rightarrow> int \<times> GeoMag \<times> (int \<Rightarrow> real)" where
  "norm_inner n D2 m js =
     (if D2 > 0 then norm_inner n (D2 - 1) (m + 1) (norm_body n m js) else js)"
  by pat_completeness auto
termination
  by (relation "measure (\<lambda>(n, D2, m, js). nat D2)") auto

declare norm_inner.simps [simp del]

text \<open>
  Lines 96 to 121: the body of the loop over the degrees, at degree \<open>n\<close>. With \<open>m = 0\<close>
  and \<open>D1 = 1\<close>, \<open>D2\<close> starts at \<open>(n - m + D1) / D1\<close>, and \<open>j\<close> at 2.
\<close>

definition norm_degree :: "int \<Rightarrow> GeoMag \<times> (int \<Rightarrow> real) \<Rightarrow> GeoMag \<times> (int \<Rightarrow> real)" where
  "norm_degree n gs =
     (case gs of (g, snorm) \<Rightarrow>
       (let sn = snorm(n := snorm (n - 1) * real_of_int (2 * n - 1) / real_of_int n);
            (j, g1, sn1) = norm_inner n ((n - 0 + 1) div 1) 0 (2, g, sn);
            g2 = g1\<lparr>gm_fn := (gm_fn g1)(n := real_of_int (n + 1))\<rparr>;
            g3 = g2\<lparr>gm_fm := (gm_fm g2)(n := real_of_int n)\<rparr>
        in (g3, sn1)))"

text \<open>
  Lines 95 to 122: the loop \<^verbatim>\<open>for (n = 1; n <= geo_mag->maxord; n++)\<close>, from degree
  \<open>n\<close> on.
\<close>

function norm_outer :: "int \<Rightarrow> GeoMag \<times> (int \<Rightarrow> real) \<Rightarrow> GeoMag \<times> (int \<Rightarrow> real)" where
  "norm_outer n gs =
     (if n \<le> gm_maxord (fst gs) then norm_outer (n + 1) (norm_degree n gs) else gs)"
  by pat_completeness auto
termination
proof (relation "measure (\<lambda>(n, gs). nat (gm_maxord (fst gs) + 1 - n))")
  have body: "gm_maxord (fst (snd (norm_body n m js))) = gm_maxord (fst (snd js))"
    for n m js
    by (simp add: norm_body_def Let_def split: prod.splits)
  have inner: "gm_maxord (fst (snd (norm_inner n D2 m js))) = gm_maxord (fst (snd js))"
    for n D2 m js
  proof (induction n D2 m js rule: norm_inner.induct)
    case (1 n D2 m js)
    show ?case
    proof (cases "D2 > 0")
      case True
      then show ?thesis
        using "1.IH" by (subst norm_inner.simps) (simp add: body)
    next
      case False
      then show ?thesis by (subst norm_inner.simps) simp
    qed
  qed
  have degree: "gm_maxord (fst (norm_degree n gs)) = gm_maxord (fst gs)" for n gs
    using inner [of n "(n - 0 + 1) div 1" 0]
    by (simp add: norm_degree_def Let_def split: prod.splits) (metis fst_conv snd_conv)
  show "wf (measure (\<lambda>(n, gs). nat (gm_maxord (fst gs) + 1 - n)))"
    by simp
  fix n :: int and gs :: "GeoMag \<times> (int \<Rightarrow> real)"
  assume "n \<le> gm_maxord (fst gs)"
  then show "((n + 1, norm_degree n gs), n, gs)
      \<in> measure (\<lambda>(n, gs). nat (gm_maxord (fst gs) + 1 - n))"
    by (simp add: degree)
qed

declare norm_outer.simps [simp del]

text \<open>
  Lines 36 to 48: the fields of the header, and the arrays \<open>c\<close>, \<open>cd\<close> and \<open>k\<close> cleared.
\<close>

definition clear_coefficients :: "coef_header \<Rightarrow> GeoMag \<Rightarrow> GeoMag" where
  "clear_coefficients hdr geo_mag =
     (let g1 = geo_mag\<lparr>gm_epoch := hdr_epoch hdr, gm_model := hdr_model hdr,
                       gm_release_date := hdr_release_date hdr\<rparr>;
          g2 = g1\<lparr>gm_c := (\<lambda>i j. 0), gm_cd := (\<lambda>i j. 0), gm_k := (\<lambda>i j. 0)\<rparr>;
          g3 = g2\<lparr>gm_c := upd2 (gm_c g2) 0 0 0\<rparr>
      in g3\<lparr>gm_cd := upd2 (gm_cd g3) 0 0 0\<rparr>)"

text \<open>
  Lines 90 to 127: the conversion of the Schmidt normalised coefficients. \<open>snorm_init\<close>
  is what the local array \<open>snorm\<close> holds when the function is entered: the array has no
  initialiser, and line 127 copies all of it into \<open>p\<close>.
\<close>

definition normalise_coefficients :: "(int \<Rightarrow> real) \<Rightarrow> GeoMag \<Rightarrow> GeoMag" where
  "normalise_coefficients snorm_init geo_mag =
     (let snorm = snorm_init(0 := 1);
          g1 = geo_mag\<lparr>gm_fm := (gm_fm geo_mag)(0 := 0)\<rparr>;
          (g2, snorm1) = norm_outer 1 (g1, snorm);
          g3 = g2\<lparr>gm_k := upd2 (gm_k g2) 1 1 0\<rparr>
      in g3\<lparr>gm_p := snorm1\<rparr>)"

text \<open>
  Line 36 when the header does not parse: \<^verbatim>\<open>fscanf\<close> has stored the items it converted
  before it stopped, the epoch first and the model name after it.
\<close>

definition store_header_items :: "real option \<times> string option \<Rightarrow> GeoMag \<Rightarrow> GeoMag" where
  "store_header_items items geo_mag =
     (case items of
        (None, _) \<Rightarrow> geo_mag
      | (Some epoch, None) \<Rightarrow> geo_mag\<lparr>gm_epoch := epoch\<rparr>
      | (Some epoch, Some name) \<Rightarrow> geo_mag\<lparr>gm_epoch := epoch, gm_model := name\<rparr>)"

text \<open>\<^verbatim>\<open>load_coefficients\<close>, lines 28 to 130. \<open>fs\<close> is the file system.\<close>

definition load_coefficients :: "file_system \<Rightarrow> (int \<Rightarrow> real) \<Rightarrow> GeoMag \<Rightarrow> string \<Rightarrow> int \<times> GeoMag" where
  "load_coefficients fs snorm_init geo_mag coefficients_file =
     (case fs coefficients_file of
        None \<Rightarrow> (- 1, geo_mag)
      | Some fp \<Rightarrow>
          (case file_header fp of
             None \<Rightarrow> (- 1, store_header_items (file_header_items fp) geo_mag)
           | Some hdr \<Rightarrow>
               (case read_records (clear_coefficients hdr geo_mag) (file_records fp) of
                  Inl g \<Rightarrow> (- 1, g)
                | Inr g \<Rightarrow> (0, normalise_coefficients snorm_init g))))"

section \<open>geomag\_init\<close>

text \<open>Lines 137 to 143: the degree of the model and the size of its tables.\<close>

definition set_model_size :: "bool \<Rightarrow> GeoMag \<Rightarrow> GeoMag" where
  "set_model_size high_resolution geo_mag =
     (let g1 = (if high_resolution then geo_mag\<lparr>gm_maxord := WMM_SIZE_HIGH_RESOLUTION\<rparr>
                else geo_mag\<lparr>gm_maxord := WMM_SIZE_STANDARD\<rparr>)
      in g1\<lparr>gm_size := gm_maxord g1 + 1\<rparr>)"

definition geomag_init :: "file_system \<Rightarrow> (int \<Rightarrow> real) \<Rightarrow> GeoMag option \<Rightarrow> string option \<Rightarrow> bool \<Rightarrow> int \<times> GeoMag option" where
  "geomag_init fs snorm_init geo_mag coefficients_file high_resolution =
     (case (geo_mag, coefficients_file) of
        (Some g, Some path) \<Rightarrow>
          (let (rc, g1) = load_coefficients fs snorm_init (set_model_size high_resolution g) path
           in (rc, Some g1))
      | _ \<Rightarrow> (- 1, geo_mag))"

section \<open>geomag\_calculate\<close>

text \<open>
  The working arrays \<open>tc\<close>, \<open>dp\<close> and \<open>pp\<close> together with the accumulated sums make the
  state of the main loop; the structure is part of it, since the loop writes
  \<^verbatim>\<open>geo_mag->p\<close>. The arrays have no initialiser in the source; they start as the
  zero function here, and every cell is written before it is read.
\<close>

record calc_state =
  cs_gm :: GeoMag
  cs_tc :: "int \<Rightarrow> int \<Rightarrow> real"
  cs_dp :: "int \<Rightarrow> int \<Rightarrow> real"
  cs_pp :: "int \<Rightarrow> real"
  cs_bt :: real
  cs_bp :: real
  cs_br :: real
  cs_bpp :: real

text \<open>Lines 222 to 225: the sines and cosines of the multiples of the longitude.\<close>

function lon_multiples :: "int \<Rightarrow> int \<Rightarrow> (int \<Rightarrow> real) \<times> (int \<Rightarrow> real) \<Rightarrow> (int \<Rightarrow> real) \<times> (int \<Rightarrow> real)" where
  "lon_multiples maxord m spcp =
     (case spcp of (sp, cp) \<Rightarrow>
       if m \<le> maxord then
         (let sp1 = sp(m := sp 1 * cp (m - 1) + cp 1 * sp (m - 1));
              cp1 = cp(m := cp 1 * cp (m - 1) - sp1 1 * sp1 (m - 1))
          in lon_multiples maxord (m + 1) (sp1, cp1))
       else spcp)"
  by pat_completeness auto
termination
  by (relation "measure (\<lambda>(maxord, m, spcp). nat (maxord + 1 - m))") auto

declare lon_multiples.simps [simp del]

text \<open>Lines 239 to 257: the Legendre functions and their derivatives at \<open>(n, m)\<close>.\<close>

definition legendre_step :: "real \<Rightarrow> real \<Rightarrow> int \<Rightarrow> int \<Rightarrow> calc_state \<Rightarrow> calc_state" where
  "legendre_step st ct n m s =
     (let g = cs_gm s; sz = gm_size g; p = gm_p g; dp = cs_dp s in
      if n = m then
        (let p1 = p(n + m * sz := st * p (n - 1 + (m - 1) * sz));
             dp1 = upd2 dp m n (st * dp (m - 1) (n - 1) + ct * p1 (n - 1 + (m - 1) * sz))
         in s\<lparr>cs_gm := g\<lparr>gm_p := p1\<rparr>, cs_dp := dp1\<rparr>)
      else if n = 1 \<and> m = 0 then
        (let p1 = p(n + m * sz := ct * p (n - 1 + m * sz));
             dp1 = upd2 dp m n (ct * dp m (n - 1) - st * p1 (n - 1 + m * sz))
         in s\<lparr>cs_gm := g\<lparr>gm_p := p1\<rparr>, cs_dp := dp1\<rparr>)
      else if n > 1 \<and> n \<noteq> m then
        (let p1 = (if m > n - 2 then p(n - 2 + m * sz := 0) else p);
             dp1 = (if m > n - 2 then upd2 dp m (n - 2) 0 else dp);
             p2 = p1(n + m * sz := ct * p1 (n - 1 + m * sz) - gm_k g m n * p1 (n - 2 + m * sz));
             dp2 = upd2 dp1 m n
                     (ct * dp1 m (n - 1) - st * p2 (n - 1 + m * sz) - gm_k g m n * dp1 m (n - 2))
         in s\<lparr>cs_gm := g\<lparr>gm_p := p2\<rparr>, cs_dp := dp2\<rparr>)
      else s)"

text \<open>Lines 259 to 263: the Gauss coefficients adjusted to the time, written to \<open>tc\<close>.\<close>

definition time_adjust :: "GeoMag \<Rightarrow> real \<Rightarrow> int \<Rightarrow> int \<Rightarrow> (int \<Rightarrow> int \<Rightarrow> real) \<Rightarrow> int \<Rightarrow> int \<Rightarrow> real" where
  "time_adjust g dt n m tc =
     (let tc1 = upd2 tc m n (gm_c g m n + dt * gm_cd g m n)
      in if m \<noteq> 0 then upd2 tc1 n (m - 1) (gm_c g n (m - 1) + dt * gm_cd g n (m - 1))
         else tc1)"

text \<open>Lines 269 to 275: \<open>temp1\<close> and \<open>temp2\<close>.\<close>

definition harmonic_terms :: "(int \<Rightarrow> int \<Rightarrow> real) \<Rightarrow> (int \<Rightarrow> real) \<Rightarrow> (int \<Rightarrow> real) \<Rightarrow> int \<Rightarrow> int \<Rightarrow> real \<times> real" where
  "harmonic_terms tc sp cp n m =
     (if m = 0 then (tc m n * cp m, tc m n * sp m)
      else (tc m n * cp m + tc n (m - 1) * sp m, tc m n * sp m - tc n (m - 1) * cp m))"

text \<open>Lines 283 to 289: the special case of the geographic poles.\<close>

definition pole_step :: "real \<Rightarrow> real \<Rightarrow> int \<Rightarrow> int \<Rightarrow> real \<Rightarrow> calc_state \<Rightarrow> calc_state" where
  "pole_step ct ar n m temp2 s =
     (let g = cs_gm s;
          pp = cs_pp s;
          pp1 = (if n = 1 then pp(n := pp (n - 1))
                 else pp(n := ct * pp (n - 1) - gm_k g m n * pp (n - 2)));
          parp = ar * pp1 n
      in s\<lparr>cs_pp := pp1, cs_bpp := cs_bpp s + gm_fm g m * temp2 * parp\<rparr>)"

text \<open>
  Lines 259 to 290: the time adjusted coefficients, the accumulation of the sums and
  the special case of the poles.
\<close>

definition accumulate_step :: "real \<Rightarrow> real \<Rightarrow> real \<Rightarrow> (int \<Rightarrow> real) \<Rightarrow> (int \<Rightarrow> real) \<Rightarrow> real \<Rightarrow> int \<Rightarrow> int \<Rightarrow> calc_state \<Rightarrow> calc_state" where
  "accumulate_step st ct dt sp cp ar n m s =
     (let g = cs_gm s;
          tc = time_adjust g dt n m (cs_tc s);
          par = ar * gm_p g (n + m * gm_size g);
          (temp1, temp2) = harmonic_terms tc sp cp n m;
          s1 = s\<lparr>cs_tc := tc,
                 cs_bt := cs_bt s - ar * temp1 * cs_dp s m n,
                 cs_bp := cs_bp s + gm_fm g m * temp2 * par,
                 cs_br := cs_br s + gm_fn g n * temp1 * par\<rparr>
      in if st = 0 \<and> m = 1 then pole_step ct ar n m temp2 s1 else s1)"

text \<open>Lines 238 to 294: the loop \<^verbatim>\<open>while (D4 > 0)\<close> at degree \<open>n\<close>.\<close>

function main_inner :: "real \<Rightarrow> real \<Rightarrow> real \<Rightarrow> (int \<Rightarrow> real) \<Rightarrow> (int \<Rightarrow> real) \<Rightarrow> real \<Rightarrow> int \<Rightarrow> int \<Rightarrow> int \<Rightarrow> calc_state \<Rightarrow> calc_state" where
  "main_inner st ct dt sp cp ar n D4 m s =
     (if D4 > 0 then
        main_inner st ct dt sp cp ar n (D4 - 1) (m + 1)
          (accumulate_step st ct dt sp cp ar n m (legendre_step st ct n m s))
      else s)"
  by pat_completeness auto
termination
  by (relation "measure (\<lambda>(st, ct, dt, sp, cp, ar, n, D4, m, s). nat D4)") auto

declare main_inner.simps [simp del]

text \<open>
  Lines 233 to 294: the body of the loop over the degrees, at degree \<open>n\<close>; the state
  is \<open>ar\<close> and the state of the inner loop. With \<open>m = 0\<close> and \<open>D3 = 1\<close>, \<open>D4\<close> starts at
  \<open>(n + m + D3) / D3\<close>.
\<close>

definition main_degree :: "real \<Rightarrow> real \<Rightarrow> real \<Rightarrow> (int \<Rightarrow> real) \<Rightarrow> (int \<Rightarrow> real) \<Rightarrow> real \<Rightarrow> int \<Rightarrow> real \<times> calc_state \<Rightarrow> real \<times> calc_state" where
  "main_degree st ct dt sp cp aor n ars =
     (case ars of (ar, s) \<Rightarrow>
       (let ar1 = ar * aor
        in (ar1, main_inner st ct dt sp cp ar1 n ((n + 0 + 1) div 1) 0 s)))"

text \<open>
  Lines 232 to 295: the loop \<^verbatim>\<open>for (int n = 1; n <= geo_mag->maxord; n++)\<close>, from
  degree \<open>n\<close> on.
\<close>

function main_outer :: "real \<Rightarrow> real \<Rightarrow> real \<Rightarrow> (int \<Rightarrow> real) \<Rightarrow> (int \<Rightarrow> real) \<Rightarrow> real \<Rightarrow> int \<Rightarrow> real \<times> calc_state \<Rightarrow> real \<times> calc_state" where
  "main_outer st ct dt sp cp aor n ars =
     (if n \<le> gm_maxord (cs_gm (snd ars)) then
        main_outer st ct dt sp cp aor (n + 1) (main_degree st ct dt sp cp aor n ars)
      else ars)"
  by pat_completeness auto
termination
proof (relation "measure (\<lambda>(st, ct, dt, sp, cp, aor, n, ars). nat (gm_maxord (cs_gm (snd ars)) + 1 - n))")
  have leg: "gm_maxord (cs_gm (legendre_step st ct n m s)) = gm_maxord (cs_gm s)"
    for st ct n m s
    by (simp add: legendre_step_def Let_def)
  have acc: "gm_maxord (cs_gm (accumulate_step st ct dt sp cp ar n m s)) = gm_maxord (cs_gm s)"
    for st ct dt sp cp ar n m s
    by (simp add: accumulate_step_def pole_step_def Let_def split: prod.splits)
  have inner: "gm_maxord (cs_gm (main_inner st ct dt sp cp ar n D4 m s)) = gm_maxord (cs_gm s)"
    for st ct dt sp cp ar n D4 m s
  proof (induction st ct dt sp cp ar n D4 m s rule: main_inner.induct)
    case (1 st ct dt sp cp ar n D4 m s)
    show ?case
    proof (cases "D4 > 0")
      case True
      then show ?thesis
        using "1.IH" by (subst main_inner.simps) (simp add: leg acc)
    next
      case False
      then show ?thesis by (subst main_inner.simps) simp
    qed
  qed
  show "wf (measure (\<lambda>(st, ct, dt, sp, cp, aor, n, ars). nat (gm_maxord (cs_gm (snd ars)) + 1 - n)))"
    by simp
  fix st ct dt :: real and sp cp :: "int \<Rightarrow> real" and aor :: real and n :: int
    and ars :: "real \<times> calc_state"
  assume "n \<le> gm_maxord (cs_gm (snd ars))"
  then show "((st, ct, dt, sp, cp, aor, n + 1, main_degree st ct dt sp cp aor n ars),
        st, ct, dt, sp, cp, aor, n, ars)
      \<in> measure (\<lambda>(st, ct, dt, sp, cp, aor, n, ars). nat (gm_maxord (cs_gm (snd ars)) + 1 - n))"
    by (simp add: main_degree_def Let_def inner split: prod.splits)
qed

declare main_outer.simps [simp del]

text \<open>
  Lines 178 to 187, 198 to 204 and 209 to 219: from the geodetic latitude and the
  altitude to the spherical coordinates: \<open>ct\<close> and \<open>st\<close>, the cosine and the sine of the
  geocentric colatitude, the radius \<open>r\<close>, and \<open>ca\<close> and \<open>sa\<close>, which rotate the field back.
\<close>

definition geodetic_to_spherical :: "real \<Rightarrow> real \<Rightarrow> real \<times> real \<times> real \<times> real \<times> real" where
  "geodetic_to_spherical glat alt =
     (let a = WGS84_A;
          b = WGS84_B;
          a2 = a * a;
          b2 = b * b;
          c2 = a2 - b2;
          a4 = a2 * a2;
          b4 = b2 * b2;
          c4 = a4 - b4;
          rlat = DEG2RAD glat;
          srlat = sin rlat;
          crlat = cos rlat;
          srlat2 = srlat * srlat;
          crlat2 = crlat * crlat;
          q = sqrt (a2 - c2 * srlat2);
          q1 = alt * q;
          q2 = ((q1 + a2) / (q1 + b2)) * ((q1 + a2) / (q1 + b2));
          ct = srlat / sqrt (q2 * crlat2 + srlat2);
          st = sqrt (1 - ct * ct);
          r2 = alt * alt + 2 * q1 + (a4 - c4 * srlat2) / (q * q);
          r = sqrt r2;
          d = sqrt (a2 * crlat2 + b2 * srlat2);
          ca = (alt + d) / r;
          sa = c2 * crlat * srlat / (r * d)
      in (ct, st, r, ca, sa))"

text \<open>
  Lines 165 to 176 and 196 to 306: from the position and \<open>dt\<close> to the field vector
  \<open>(bx, by, bz)\<close> in geodetic coordinates, together with the structure as the main
  loop leaves it.
\<close>

definition field_vector :: "GeoMag \<Rightarrow> real \<Rightarrow> real \<Rightarrow> real \<Rightarrow> real \<Rightarrow> GeoMag \<times> real \<times> real \<times> real" where
  "field_vector geo_mag glat glon alt dt =
     (let sp0 = (\<lambda>i. 0)(0 := 0);
          cp0 = (\<lambda>i. 0)(0 := 1);
          pp0 = (\<lambda>i. 0)(0 := 1);
          dp0 = upd2 (\<lambda>i j. 0) 0 0 0;
          re = WGS84_RE;
          rlon = DEG2RAD glon;
          srlon = sin rlon;
          crlon = cos rlon;
          sp1 = sp0(1 := srlon);
          cp1 = cp0(1 := crlon);
          (ct, st, r, ca, sa) = geodetic_to_spherical glat alt;
          (sp, cp) = lon_multiples (gm_maxord geo_mag) 2 (sp1, cp1);
          aor = re / r;
          ar = aor * aor;
          s0 = \<lparr>cs_gm = geo_mag, cs_tc = (\<lambda>i j. 0), cs_dp = dp0, cs_pp = pp0,
                cs_bt = 0, cs_bp = 0, cs_br = 0, cs_bpp = 0\<rparr>;
          (ar1, s) = main_outer st ct dt sp cp aor 1 (ar, s0);
          bp = (if st = 0 then cs_bpp s else cs_bp s / st);
          b_x = - cs_bt s * ca - cs_br s * sa;
          b_y = bp;
          b_z = cs_bt s * sa - cs_br s * ca
      in (cs_gm s, b_x, b_y, b_z))"

text \<open>Lines 314 to 332: the grid variation, from the declination \<open>d\<close>.\<close>

definition grid_variation :: "real \<Rightarrow> real \<Rightarrow> real \<Rightarrow> real" where
  "grid_variation glat glon d =
     (let gv = - 999 in
      if \<bar>glat\<bar> \<ge> 55 then
        (let gv1 = (if glat > 0 \<and> glon \<ge> 0 then d - glon
                    else if glat > 0 \<and> glon < 0 then d + \<bar>glon\<bar>
                    else if glat < 0 \<and> glon \<ge> 0 then d + glon
                    else if glat < 0 \<and> glon < 0 then d - \<bar>glon\<bar>
                    else gv)
         in if gv1 > 180 then gv1 - 360
            else if gv1 < - 180 then gv1 + 360
            else gv1)
      else gv)"

text \<open>
  Lines 308 to 355: the derived quantities, the grid variation, the components
  recomputed from \<open>F\<close>, \<open>D\<close> and \<open>I\<close>, and the zones; the return code and the result.
  The values stored in \<open>result->f\<close>, \<open>result->d\<close>, \<open>result->i\<close> and \<open>result->h\<close> are read
  back by the later lines; they are bound to \<open>f\<close>, \<open>d\<close>, \<open>i\<close> and \<open>h\<close> here.
\<close>

definition field_result :: "real \<Rightarrow> real \<Rightarrow> real \<Rightarrow> real \<Rightarrow> real \<Rightarrow> bool \<Rightarrow> GeoMagResult \<Rightarrow> int \<times> GeoMagResult" where
  "field_result b_x b_y b_z glat glon raise_in_warning_zone result =
     (let bh = sqrt (b_x * b_x + b_y * b_y);
          f = sqrt (bh * bh + b_z * b_z);
          d = RAD2DEG (atan2 b_y b_x);
          i = RAD2DEG (atan2 b_z bh);
          gv = grid_variation glat glon d;
          x = f * cos (DEG2RAD d) * cos (DEG2RAD i);
          y = f * cos (DEG2RAD i) * sin (DEG2RAD d);
          z = f * sin (DEG2RAD i);
          h = f * cos (DEG2RAD i);
          r1 = result\<lparr>r_f := f, r_d := d, r_i := i, r_gv := gv,
                      r_x := x, r_y := y, r_z := z, r_h := h\<rparr>
      in if h < BLACKOUT_ZONE then
           (let r2 = r1\<lparr>r_in_blackout_zone := True\<rparr>
            in if raise_in_warning_zone then (- 2, r2) else (0, r2))
         else if h < CAUTION_ZONE then
           (let r2 = r1\<lparr>r_in_caution_zone := True\<rparr>
            in if raise_in_warning_zone then (- 3, r2) else (0, r2))
         else (0, r1))"

text \<open>Lines 156 to 163: the fields written before the date is checked.\<close>

definition init_result :: "GeoMag \<Rightarrow> real \<Rightarrow> real \<Rightarrow> real \<Rightarrow> real \<Rightarrow> GeoMagResult \<Rightarrow> GeoMagResult" where
  "init_result geo_mag glat glon alt time result =
     result\<lparr>r_time := time, r_alt := alt, r_glat := glat, r_glon := glon,
            r_in_blackout_zone := False, r_in_caution_zone := False,
            r_is_high_resolution := (gm_maxord geo_mag = WMM_SIZE_HIGH_RESOLUTION)\<rparr>"

text \<open>
  \<^verbatim>\<open>geomag_calculate\<close>, lines 149 to 356: the return code, the structure and the
  result as the call leaves them.
\<close>

definition geomag_calculate :: "GeoMag option \<Rightarrow> real \<Rightarrow> real \<Rightarrow> real \<Rightarrow> real \<Rightarrow> bool \<Rightarrow> bool \<Rightarrow> GeoMagResult option \<Rightarrow> int \<times> GeoMag option \<times> GeoMagResult option" where
  "geomag_calculate geo_mag glat glon alt time allow_date_outside_lifespan raise_in_warning_zone result =
     (case (geo_mag, result) of
        (Some g, Some res) \<Rightarrow>
          (let r1 = init_result g glat glon alt time res;
               dt = time - gm_epoch g
           in if \<not> allow_date_outside_lifespan \<and> (dt < 0 \<or> dt > 5) then (- 1, Some g, Some r1)
              else
                (let (g1, b_x, b_y, b_z) = field_vector g glat glon alt dt;
                     (rc, r2) = field_result b_x b_y b_z glat glon raise_in_warning_zone r1
                 in (rc, Some g1, Some r2)))
      | _ \<Rightarrow> (- 1, geo_mag, result))"

section \<open>geomag\_calculate\_uncertainty\<close>

text \<open>
  Lines 358 to 408. When the horizontal intensity of the result is 0 the C code divides
  by zero and the declination uncertainty is infinite; the reals have no such value
  (\<open>x / 0\<close> is 0 in HOL), so what the model says of \<open>u_d\<close> is the code's value only for
  \<open>H \<noteq> 0\<close>.
\<close>

definition geomag_calculate_uncertainty :: "GeoMagResult option \<Rightarrow> GeoMagUncertainty option \<Rightarrow> int \<times> GeoMagUncertainty option" where
  "geomag_calculate_uncertainty result uncertainty =
     (case (result, uncertainty) of
        (Some res, Some u) \<Rightarrow>
          if r_time res \<ge> WMM_MODEL_2025_LOWER \<and> r_time res \<le> WMM_MODEL_2025_UPPER then
            (if r_is_high_resolution res then
               (0, Some (u\<lparr>u_x := 135, u_y := 85, u_z := 134, u_h := 130, u_f := 134, u_i := 0.19,
                  u_d := sqrt (0.25 * 0.25 + (5205 / r_h res) * (5205 / r_h res))\<rparr>))
             else
               (0, Some (u\<lparr>u_x := 137, u_y := 89, u_z := 141, u_h := 133, u_f := 138, u_i := 0.20,
                  u_d := sqrt (0.26 * 0.26 + (5417 / r_h res) * (5417 / r_h res))\<rparr>)))
          else if r_time res \<ge> WMM_MODEL_2020_LOWER \<and> r_time res \<le> WMM_MODEL_2020_UPPER then
            (0, Some (u\<lparr>u_x := 131, u_y := 94, u_z := 157, u_h := 128, u_f := 148, u_i := 0.21,
               u_d := sqrt (0.26 * 0.26 + (5625 / r_h res) * (5625 / r_h res))\<rparr>))
          else if r_time res \<ge> WMM_MODEL_2015_LOWER \<and> r_time res < WMM_MODEL_2015_UPPER then
            (0, Some (u\<lparr>u_x := 138, u_y := 89, u_z := 165, u_h := 133, u_f := 152, u_i := 0.22,
               u_d := sqrt (0.23 * 0.23 + (5430 / r_h res) * (5430 / r_h res))\<rparr>))
          else (- 1, Some u)
      | _ \<Rightarrow> (- 1, uncertainty))"

section \<open>Sample inputs\<close>

text \<open>
  Zero-initialised structures, and a coefficient file that holds the header of the
  WMM-2025 file and no record: the smallest file \<^verbatim>\<open>geomag_init\<close> loads.
\<close>

definition blank_result :: GeoMagResult where
  "blank_result =
     \<lparr>r_time = 0, r_alt = 0, r_glat = 0, r_glon = 0, r_x = 0, r_y = 0, r_z = 0, r_h = 0,
      r_f = 0, r_i = 0, r_d = 0, r_gv = 0, r_in_blackout_zone = False,
      r_in_caution_zone = False, r_is_high_resolution = False\<rparr>"

definition blank_uncertainty :: GeoMagUncertainty where
  "blank_uncertainty = \<lparr>u_x = 0, u_y = 0, u_z = 0, u_h = 0, u_f = 0, u_i = 0, u_d = 0\<rparr>"

definition blank_model :: GeoMag where
  "blank_model =
     \<lparr>gm_maxord = 0, gm_size = 0, gm_epoch = 0, gm_model = [], gm_release_date = [],
      gm_c = (\<lambda>i j. 0), gm_cd = (\<lambda>i j. 0), gm_k = (\<lambda>i j. 0),
      gm_fn = (\<lambda>i. 0), gm_fm = (\<lambda>i. 0), gm_p = (\<lambda>i. 0)\<rparr>"

definition sample_header :: coef_header where
  "sample_header = \<lparr>hdr_epoch = 2025, hdr_model = ''WMM-2025'',
                     hdr_release_date = ''11/13/2024''\<rparr>"

definition header_only_file :: coef_file where
  "header_only_file =
     \<lparr>file_header = Some sample_header, file_header_items = (None, None), file_records = []\<rparr>"

definition sample_fs :: file_system where
  "sample_fs path = (if path = ''data/WMM.COF'' then Some header_only_file else None)"

text \<open>The standard model \<^verbatim>\<open>geomag_init\<close> builds from that file.\<close>

definition loaded_model :: GeoMag where
  "loaded_model =
     (case snd (geomag_init sample_fs (\<lambda>i. 0) (Some blank_model) (Some ''data/WMM.COF'') False) of
        Some g \<Rightarrow> g
      | None \<Rightarrow> blank_model)"

text \<open>
  The first two records of the WMM-2025 coefficient file, and a record that starts with
  the end marker.
\<close>

definition record_1_0 :: coef_record where
  "record_1_0 = \<lparr>rec_n = 1, rec_m = 0, rec_gnm = - 29351.8, rec_hnm = 0,
                  rec_dgnm = 12, rec_dhnm = 0\<rparr>"

definition record_1_1 :: coef_record where
  "record_1_1 = \<lparr>rec_n = 1, rec_m = 1, rec_gnm = - 1410.8, rec_hnm = 4545.4,
                  rec_dgnm = 9.7, rec_dhnm = - 21.5\<rparr>"

definition end_marker :: coef_record where
  "end_marker = \<lparr>rec_n = 9999, rec_m = 9999, rec_gnm = 9999, rec_hnm = 9999,
                  rec_dgnm = 9999, rec_dhnm = 9999\<rparr>"

section \<open>Files and records\<close>

text \<open>
  A file system in which every path opens the file with the header \<open>h\<close> and the records
  \<open>recs\<close>; the degree \<^verbatim>\<open>geomag_init\<close> gives a model; a record that the reading loop
  stores (its \<open>n\<close> is not the end marker and \<open>0 \<le> m \<le> n \<le> maxord\<close>); and two records
  that differ at most in \<open>h\<close> and \<open>hDot\<close> when their order is 0.
\<close>

definition file_of :: "coef_header option \<Rightarrow> coef_record list \<Rightarrow> file_system" where
  "file_of h recs =
     (\<lambda>path. Some \<lparr>file_header = h, file_header_items = (None, None), file_records = recs\<rparr>)"

definition max_degree :: "bool \<Rightarrow> int" where
  "max_degree high_resolution =
     (if high_resolution then WMM_SIZE_HIGH_RESOLUTION else WMM_SIZE_STANDARD)"

definition well_formed_record :: "int \<Rightarrow> coef_record \<Rightarrow> bool" where
  "well_formed_record maxord r =
     (rec_n r \<noteq> 9999 \<and> 0 \<le> rec_m r \<and> rec_m r \<le> rec_n r \<and> rec_n r \<le> maxord)"

definition same_but_h0 :: "coef_record \<Rightarrow> coef_record \<Rightarrow> bool" where
  "same_but_h0 r r' =
     (rec_n r' = rec_n r \<and> rec_m r' = rec_m r \<and> rec_gnm r' = rec_gnm r \<and>
      rec_dgnm r' = rec_dgnm r \<and>
      (rec_m r = 0 \<or> (rec_hnm r' = rec_hnm r \<and> rec_dhnm r' = rec_dhnm r)))"

text \<open>
  Two models that agree in everything but the tables \<open>fn\<close>, \<open>fm\<close> and \<open>p\<close>: the degree,
  the size, the three fields of the header, the coefficients \<open>c\<close> and \<open>cd\<close>, and the
  recursion factors \<open>k\<close>.
\<close>

definition same_core :: "GeoMag \<Rightarrow> GeoMag \<Rightarrow> bool" where
  "same_core g g' =
     (gm_maxord g' = gm_maxord g \<and> gm_size g' = gm_size g \<and> gm_epoch g' = gm_epoch g \<and>
      gm_model g' = gm_model g \<and> gm_release_date g' = gm_release_date g \<and>
      gm_c g' = gm_c g \<and> gm_cd g' = gm_cd g \<and> gm_k g' = gm_k g)"

text \<open>
  A state of the main loop in which the model has no coefficient and the sums are zero.
\<close>

definition no_field :: "calc_state \<Rightarrow> bool" where
  "no_field s =
     (gm_c (cs_gm s) = (\<lambda>i j. 0) \<and> gm_cd (cs_gm s) = (\<lambda>i j. 0) \<and>
      cs_bt s = 0 \<and> cs_bp s = 0 \<and> cs_br s = 0 \<and> cs_bpp s = 0)"

section \<open>Array updates and loop invariants\<close>

lemma upd2_apply: "upd2 a i j v i' j' = (if i' = i \<and> j' = j then v else a i' j')"
  by (simp add: upd2_def)

lemma upd2_zero: "upd2 (\<lambda>i j. 0) i j 0 = (\<lambda>i j. 0)"
  by (rule ext, rule ext) (simp add: upd2_apply)

text \<open>
  A property of the loop state that every turn of a loop keeps holds when the loop is
  left; \<open>lo\<close> bounds the loop counter from below.
\<close>

lemma norm_inner_invariant:
  assumes "\<And>m js. lo \<le> m \<Longrightarrow> P js \<Longrightarrow> P (norm_body n m js)"
    and "P js" and "lo \<le> m"
  shows "P (norm_inner n D2 m js)"
  using assms
proof (induction n D2 m js rule: norm_inner.induct)
  case (1 n D2 m js)
  show ?case
  proof (cases "D2 > 0")
    case True
    have "P (norm_body n m js)"
      using "1.prems" by blast
    moreover have "lo \<le> m + 1"
      using "1.prems"(3) by simp
    ultimately have "P (norm_inner n (D2 - 1) (m + 1) (norm_body n m js))"
      using "1.IH" [OF True] "1.prems"(1) by blast
    with True show ?thesis
      by (subst norm_inner.simps) simp
  next
    case False
    with "1.prems"(2) show ?thesis
      by (subst norm_inner.simps) simp
  qed
qed

lemma norm_outer_invariant:
  assumes "\<And>n gs. lo \<le> n \<Longrightarrow> P gs \<Longrightarrow> P (norm_degree n gs)"
    and "P gs" and "lo \<le> n"
  shows "P (norm_outer n gs)"
  using assms
proof (induction n gs rule: norm_outer.induct)
  case (1 n gs)
  show ?case
  proof (cases "n \<le> gm_maxord (fst gs)")
    case True
    have "P (norm_degree n gs)"
      using "1.prems" by blast
    moreover have "lo \<le> n + 1"
      using "1.prems"(3) by simp
    ultimately have "P (norm_outer (n + 1) (norm_degree n gs))"
      using "1.IH" [OF True] "1.prems"(1) by blast
    with True show ?thesis
      by (subst norm_outer.simps) simp
  next
    case False
    with "1.prems"(2) show ?thesis
      by (subst norm_outer.simps) simp
  qed
qed

lemma main_inner_invariant:
  assumes "\<And>m s. lo \<le> m \<Longrightarrow> P s \<Longrightarrow>
             P (accumulate_step st ct dt sp cp ar n m (legendre_step st ct n m s))"
    and "P s" and "lo \<le> m"
  shows "P (main_inner st ct dt sp cp ar n D4 m s)"
  using assms
proof (induction st ct dt sp cp ar n D4 m s rule: main_inner.induct)
  case (1 st ct dt sp cp ar n D4 m s)
  show ?case
  proof (cases "D4 > 0")
    case True
    have "P (accumulate_step st ct dt sp cp ar n m (legendre_step st ct n m s))"
      using "1.prems" by blast
    moreover have "lo \<le> m + 1"
      using "1.prems"(3) by simp
    ultimately have "P (main_inner st ct dt sp cp ar n (D4 - 1) (m + 1)
        (accumulate_step st ct dt sp cp ar n m (legendre_step st ct n m s)))"
      using "1.IH" [OF True] "1.prems"(1) by blast
    with True show ?thesis
      by (subst main_inner.simps) simp
  next
    case False
    with "1.prems"(2) show ?thesis
      by (subst main_inner.simps) simp
  qed
qed

lemma main_outer_invariant:
  assumes "\<And>n ars. lo \<le> n \<Longrightarrow> P ars \<Longrightarrow> P (main_degree st ct dt sp cp aor n ars)"
    and "P ars" and "lo \<le> n"
  shows "P (main_outer st ct dt sp cp aor n ars)"
  using assms
proof (induction st ct dt sp cp aor n ars rule: main_outer.induct)
  case (1 st ct dt sp cp aor n ars)
  show ?case
  proof (cases "n \<le> gm_maxord (cs_gm (snd ars))")
    case True
    have "P (main_degree st ct dt sp cp aor n ars)"
      using "1.prems" by blast
    moreover have "lo \<le> n + 1"
      using "1.prems"(3) by simp
    ultimately have "P (main_outer st ct dt sp cp aor (n + 1) (main_degree st ct dt sp cp aor n ars))"
      using "1.IH" [OF True] "1.prems"(1) by blast
    with True show ?thesis
      by (subst main_outer.simps) simp
  next
    case False
    with "1.prems"(2) show ?thesis
      by (subst main_outer.simps) simp
  qed
qed


subsection \<open>The normalisation loops on a model without coefficients\<close>

lemma norm_body_model:
  "gm_maxord (fst (snd (norm_body n m js))) = gm_maxord (fst (snd js))"
  "gm_size (fst (snd (norm_body n m js))) = gm_size (fst (snd js))"
  "gm_epoch (fst (snd (norm_body n m js))) = gm_epoch (fst (snd js))"
  by (simp_all add: norm_body_def Let_def split: prod.splits)

lemma norm_body_zero:
  "gm_c (fst (snd js)) = (\<lambda>i j. 0) \<Longrightarrow> gm_c (fst (snd (norm_body n m js))) = (\<lambda>i j. 0)"
  "gm_cd (fst (snd js)) = (\<lambda>i j. 0) \<Longrightarrow> gm_cd (fst (snd (norm_body n m js))) = (\<lambda>i j. 0)"
  by (cases js; simp add: norm_body_def Let_def upd2_zero)+

lemma above_first_row:
  fixes i n m S :: int
  assumes "0 < m" and "0 < S" and "i < n + S"
  shows "i \<noteq> n + m * S"
proof -
  have "1 * S \<le> m * S"
    using assms(1,2) by (intro mult_right_mono) simp_all
  with assms(3) show ?thesis by simp
qed

lemma norm_body_snorm:
  assumes "0 < gm_size (fst (snd js))" and "i < n + gm_size (fst (snd js))"
  shows "snd (snd (norm_body n m js)) i = snd (snd js) i"
  using assms above_first_row [of m "gm_size (fst (snd js))" i n]
  by (cases js) (simp add: norm_body_def Let_def)

lemma norm_inner_keeps:
  assumes "0 < gm_size (fst (snd js))" and "i < n + gm_size (fst (snd js))"
    and "gm_c (fst (snd js)) = (\<lambda>i j. 0)" and "gm_cd (fst (snd js)) = (\<lambda>i j. 0)"
  shows "gm_maxord (fst (snd (norm_inner n D2 m js))) = gm_maxord (fst (snd js)) \<and>
         gm_size (fst (snd (norm_inner n D2 m js))) = gm_size (fst (snd js)) \<and>
         gm_epoch (fst (snd (norm_inner n D2 m js))) = gm_epoch (fst (snd js)) \<and>
         gm_c (fst (snd (norm_inner n D2 m js))) = (\<lambda>i j. 0) \<and>
         gm_cd (fst (snd (norm_inner n D2 m js))) = (\<lambda>i j. 0) \<and>
         snd (snd (norm_inner n D2 m js)) i = snd (snd js) i"
proof -
  let ?P = "\<lambda>js' :: int \<times> GeoMag \<times> (int \<Rightarrow> real).
         gm_maxord (fst (snd js')) = gm_maxord (fst (snd js)) \<and>
         gm_size (fst (snd js')) = gm_size (fst (snd js)) \<and>
         gm_epoch (fst (snd js')) = gm_epoch (fst (snd js)) \<and>
         gm_c (fst (snd js')) = (\<lambda>i j. 0) \<and>
         gm_cd (fst (snd js')) = (\<lambda>i j. 0) \<and>
         snd (snd js') i = snd (snd js) i"
  have "?P (norm_inner n D2 m js)"
  proof (rule norm_inner_invariant [where lo = m and P = ?P])
    fix m' :: int and js' :: "int \<times> GeoMag \<times> (int \<Rightarrow> real)"
    assume "?P js'"
    then show "?P (norm_body n m' js')"
      using assms(1,2) by (simp add: norm_body_model norm_body_zero norm_body_snorm)
  next
    show "?P js"
      using assms(3,4) by simp
  qed simp
  then show ?thesis .
qed

lemma norm_degree_keeps:
  assumes "0 < gm_size g" and "i < n + gm_size g"
    and "gm_c g = (\<lambda>i j. 0)" and "gm_cd g = (\<lambda>i j. 0)"
  shows "gm_maxord (fst (norm_degree n (g, snorm))) = gm_maxord g \<and>
         gm_size (fst (norm_degree n (g, snorm))) = gm_size g \<and>
         gm_epoch (fst (norm_degree n (g, snorm))) = gm_epoch g \<and>
         gm_c (fst (norm_degree n (g, snorm))) = (\<lambda>i j. 0) \<and>
         gm_cd (fst (norm_degree n (g, snorm))) = (\<lambda>i j. 0) \<and>
         snd (norm_degree n (g, snorm)) i =
           (snorm(n := snorm (n - 1) * real_of_int (2 * n - 1) / real_of_int n)) i"
proof -
  define sn where "sn = snorm(n := snorm (n - 1) * real_of_int (2 * n - 1) / real_of_int n)"
  obtain j' g' sn' where inner: "norm_inner n ((n - 0 + 1) div 1) 0 (2, g, sn) = (j', g', sn')"
    by (cases "norm_inner n ((n - 0 + 1) div 1) 0 (2, g, sn)") auto
  have "gm_maxord g' = gm_maxord g \<and> gm_size g' = gm_size g \<and> gm_epoch g' = gm_epoch g \<and>
        gm_c g' = (\<lambda>i j. 0) \<and> gm_cd g' = (\<lambda>i j. 0) \<and> sn' i = sn i"
    using norm_inner_keeps [of "(2, g, sn)" i n "(n - 0 + 1) div 1" 0] assms inner by simp
  moreover have "norm_degree n (g, snorm) =
      (g'\<lparr>gm_fn := (gm_fn g')(n := real_of_int (n + 1)), gm_fm := (gm_fm g')(n := real_of_int n)\<rparr>, sn')"
    using inner by (simp add: norm_degree_def Let_def sn_def)
  ultimately show ?thesis
    by (simp add: sn_def)
qed

lemma norm_outer_keeps:
  assumes "0 < gm_size (fst gs)" and "i < n"
    and "gm_c (fst gs) = (\<lambda>i j. 0)" and "gm_cd (fst gs) = (\<lambda>i j. 0)"
  shows "gm_maxord (fst (norm_outer n gs)) = gm_maxord (fst gs) \<and>
         gm_size (fst (norm_outer n gs)) = gm_size (fst gs) \<and>
         gm_epoch (fst (norm_outer n gs)) = gm_epoch (fst gs) \<and>
         gm_c (fst (norm_outer n gs)) = (\<lambda>i j. 0) \<and>
         gm_cd (fst (norm_outer n gs)) = (\<lambda>i j. 0) \<and>
         snd (norm_outer n gs) i = snd gs i"
proof -
  let ?P = "\<lambda>gs' :: GeoMag \<times> (int \<Rightarrow> real).
         gm_maxord (fst gs') = gm_maxord (fst gs) \<and>
         gm_size (fst gs') = gm_size (fst gs) \<and>
         gm_epoch (fst gs') = gm_epoch (fst gs) \<and>
         gm_c (fst gs') = (\<lambda>i j. 0) \<and>
         gm_cd (fst gs') = (\<lambda>i j. 0) \<and>
         snd gs' i = snd gs i"
  have "?P (norm_outer n gs)"
  proof (rule norm_outer_invariant [where lo = n and P = ?P])
    fix n' :: int and gs' :: "GeoMag \<times> (int \<Rightarrow> real)"
    assume "n \<le> n'" and "?P gs'"
    then show "?P (norm_degree n' gs')"
      using assms(1,2) norm_degree_keeps [of "fst gs'" i n' "snd gs'"]
      by simp
  next
    show "?P gs"
      using assms(3,4) by simp
  qed simp
  then show ?thesis .
qed

lemma loaded_model_facts:
  "geomag_init sample_fs (\<lambda>i. 0) (Some blank_model) (Some ''data/WMM.COF'') False =
     (0, Some loaded_model)"
  "gm_maxord loaded_model = 12"
  "gm_size loaded_model = 13"
  "gm_epoch loaded_model = 2025"
  "gm_c loaded_model = (\<lambda>i j. 0)"
  "gm_cd loaded_model = (\<lambda>i j. 0)"
  "gm_p loaded_model 0 = 1"
  "gm_p loaded_model 1 = 1"
proof -
  define g6 where "g6 = blank_model\<lparr>gm_maxord := 12, gm_size := 13, gm_epoch := 2025,
      gm_model := ''WMM-2025'', gm_release_date := ''11/13/2024'',
      gm_fm := (gm_fm blank_model)(0 := 0)\<rparr>"
  define sn :: "int \<Rightarrow> real" where "sn = (\<lambda>i. 0)(0 := 1)"
  obtain g7 sn7 where outer: "norm_outer 1 (g6, sn) = (g7, sn7)"
    by (cases "norm_outer 1 (g6, sn)") auto
  have g6: "gm_maxord g6 = 12" "gm_size g6 = 13" "gm_epoch g6 = 2025"
    "gm_c g6 = (\<lambda>i j. 0)" "gm_cd g6 = (\<lambda>i j. 0)"
    by (simp_all add: g6_def blank_model_def)
  have step: "norm_outer 1 (g6, sn) = norm_outer 2 (norm_degree 1 (g6, sn))"
    by (subst norm_outer.simps) (simp add: g6)
  have d1: "gm_maxord (fst (norm_degree 1 (g6, sn))) = 12"
    "gm_size (fst (norm_degree 1 (g6, sn))) = 13"
    "gm_epoch (fst (norm_degree 1 (g6, sn))) = 2025"
    "gm_c (fst (norm_degree 1 (g6, sn))) = (\<lambda>i j. 0)"
    "gm_cd (fst (norm_degree 1 (g6, sn))) = (\<lambda>i j. 0)"
    "snd (norm_degree 1 (g6, sn)) 0 = 1"
    "snd (norm_degree 1 (g6, sn)) 1 = 1"
    using norm_degree_keeps [of g6 0 1 sn] norm_degree_keeps [of g6 1 1 sn]
    by (simp_all add: g6 sn_def)
  have g7: "gm_maxord g7 = 12" "gm_size g7 = 13" "gm_epoch g7 = 2025"
    "gm_c g7 = (\<lambda>i j. 0)" "gm_cd g7 = (\<lambda>i j. 0)" "sn7 0 = 1" "sn7 1 = 1"
    using norm_outer_keeps [of "norm_degree 1 (g6, sn)" 0 2]
      norm_outer_keeps [of "norm_degree 1 (g6, sn)" 1 2] outer step d1
    by simp_all
  have init: "geomag_init sample_fs (\<lambda>i. 0) (Some blank_model) (Some ''data/WMM.COF'') False =
      (0, Some (g7\<lparr>gm_k := upd2 (gm_k g7) 1 1 0, gm_p := sn7\<rparr>))"
    using outer
    by (simp add: geomag_init_def load_coefficients_def set_model_size_def
        clear_coefficients_def normalise_coefficients_def sample_fs_def header_only_file_def
        sample_header_def
        WMM_SIZE_STANDARD_def Let_def upd2_zero g6_def sn_def blank_model_def)
  then have lm: "loaded_model = g7\<lparr>gm_k := upd2 (gm_k g7) 1 1 0, gm_p := sn7\<rparr>"
    by (simp add: loaded_model_def)
  show "geomag_init sample_fs (\<lambda>i. 0) (Some blank_model) (Some ''data/WMM.COF'') False =
     (0, Some loaded_model)"
    using init lm by simp
  show "gm_maxord loaded_model = 12" "gm_size loaded_model = 13" "gm_epoch loaded_model = 2025"
    "gm_c loaded_model = (\<lambda>i j. 0)" "gm_cd loaded_model = (\<lambda>i j. 0)"
    "gm_p loaded_model 0 = 1" "gm_p loaded_model 1 = 1"
    using g7 by (simp_all add: lm)
qed

subsection \<open>The main loop writes no field of the structure but p\<close>

lemma accumulate_step_gm: "cs_gm (accumulate_step st ct dt sp cp ar n m s) = cs_gm s"
  by (simp add: accumulate_step_def pole_step_def Let_def split: prod.splits)

lemma legendre_step_frame:
  "(cs_gm (legendre_step st ct n m s))\<lparr>gm_p := q\<rparr> = (cs_gm s)\<lparr>gm_p := q\<rparr>"
  by (simp add: legendre_step_def Let_def)

lemma main_inner_frame:
  "(cs_gm (main_inner st ct dt sp cp ar n D4 m s))\<lparr>gm_p := q\<rparr> = (cs_gm s)\<lparr>gm_p := q\<rparr>"
  by (rule main_inner_invariant [where lo = m and P = "\<lambda>s'. (cs_gm s')\<lparr>gm_p := q\<rparr> = (cs_gm s)\<lparr>gm_p := q\<rparr>"])
    (simp_all add: accumulate_step_gm legendre_step_frame)

lemma main_degree_frame:
  "(cs_gm (snd (main_degree st ct dt sp cp aor n ars)))\<lparr>gm_p := q\<rparr> = (cs_gm (snd ars))\<lparr>gm_p := q\<rparr>"
  by (cases ars) (simp add: main_degree_def Let_def main_inner_frame)

lemma main_outer_frame:
  "(cs_gm (snd (main_outer st ct dt sp cp aor n ars)))\<lparr>gm_p := q\<rparr> = (cs_gm (snd ars))\<lparr>gm_p := q\<rparr>"
  by (rule main_outer_invariant [where lo = n and P = "\<lambda>ars'. (cs_gm (snd ars'))\<lparr>gm_p := q\<rparr> = (cs_gm (snd ars))\<lparr>gm_p := q\<rparr>"])
    (simp_all add: main_degree_frame)

text \<open>What \<open>field_vector\<close> returns, in terms of the state the main loop leaves.\<close>

lemma field_vector_loop:
  "\<exists>ct st r ca sa sp cp ar s0 s.
     geodetic_to_spherical glat alt = (ct, st, r, ca, sa) \<and>
     cs_gm s0 = g \<and> cs_bt s0 = 0 \<and> cs_bp s0 = 0 \<and> cs_br s0 = 0 \<and> cs_bpp s0 = 0 \<and>
     s = snd (main_outer st ct dt sp cp (WGS84_RE / r) 1 (ar, s0)) \<and>
     field_vector g glat glon alt dt =
       (cs_gm s, - cs_bt s * ca - cs_br s * sa,
        (if st = 0 then cs_bpp s else cs_bp s / st), cs_bt s * sa - cs_br s * ca)"
proof -
  obtain ct st r ca sa where sph: "geodetic_to_spherical glat alt = (ct, st, r, ca, sa)"
    by (cases "geodetic_to_spherical glat alt") auto
  obtain sp cp where lon: "lon_multiples (gm_maxord g) 2
      (((\<lambda>i. 0)(0 := 0))(1 := sin (DEG2RAD glon)), ((\<lambda>i. 0)(0 := 1))(1 := cos (DEG2RAD glon))) = (sp, cp)"
    by (cases "lon_multiples (gm_maxord g) 2
      (((\<lambda>i. 0)(0 := 0))(1 := sin (DEG2RAD glon)), ((\<lambda>i. 0)(0 := 1))(1 := cos (DEG2RAD glon)))") auto
  define s0 where "s0 = \<lparr>cs_gm = g, cs_tc = (\<lambda>i j. 0), cs_dp = upd2 (\<lambda>i j. 0) 0 0 0,
      cs_pp = (\<lambda>i. 0)(0 := 1), cs_bt = 0, cs_bp = 0, cs_br = 0, cs_bpp = 0\<rparr>"
  define ar where "ar = WGS84_RE / r * (WGS84_RE / r)"
  obtain ar1 s where loop: "main_outer st ct dt sp cp (WGS84_RE / r) 1 (ar, s0) = (ar1, s)"
    by (cases "main_outer st ct dt sp cp (WGS84_RE / r) 1 (ar, s0)") auto
  have "field_vector g glat glon alt dt =
       (cs_gm s, - cs_bt s * ca - cs_br s * sa,
        (if st = 0 then cs_bpp s else cs_bp s / st), cs_bt s * sa - cs_br s * ca)"
    using sph lon loop unfolding field_vector_def Let_def s0_def ar_def
    by simp
  moreover have "s = snd (main_outer st ct dt sp cp (WGS84_RE / r) 1 (ar, s0))"
    using loop by simp
  moreover have "cs_gm s0 = g \<and> cs_bt s0 = 0 \<and> cs_bp s0 = 0 \<and> cs_br s0 = 0 \<and> cs_bpp s0 = 0"
    by (simp add: s0_def)
  ultimately show ?thesis
    using sph by blast
qed

lemma field_vector_frame:
  "(fst (field_vector g glat glon alt dt))\<lparr>gm_p := q\<rparr> = g\<lparr>gm_p := q\<rparr>"
proof -
  obtain ct st r ca sa sp cp ar s0 s where
    "cs_gm s0 = g" and "s = snd (main_outer st ct dt sp cp (WGS84_RE / r) 1 (ar, s0))"
    and "field_vector g glat glon alt dt =
       (cs_gm s, - cs_bt s * ca - cs_br s * sa,
        (if st = 0 then cs_bpp s else cs_bp s / st), cs_bt s * sa - cs_br s * ca)"
    using field_vector_loop [of glat alt g dt glon] by blast
  then show ?thesis
    by (simp add: main_outer_frame)
qed

subsection \<open>A model without coefficients has no field\<close>

lemma time_adjust_zero:
  assumes "gm_c g = (\<lambda>i j. 0)" and "gm_cd g = (\<lambda>i j. 0)"
  shows "time_adjust g dt n m tc m n = 0 \<and> (m = 0 \<or> time_adjust g dt n m tc n (m - 1) = 0)"
  unfolding time_adjust_def Let_def assms upd2_def by simp

lemma harmonic_terms_zero:
  assumes "tc m n = 0 \<and> (m = 0 \<or> tc n (m - 1) = 0)"
  shows "harmonic_terms tc sp cp n m = (0, 0)"
  using assms by (auto simp add: harmonic_terms_def)

lemma legendre_step_no_field: "no_field s \<Longrightarrow> no_field (legendre_step st ct n m s)"
  by (simp add: no_field_def legendre_step_def Let_def)

lemma accumulate_step_no_field:
  assumes "no_field s"
  shows "no_field (accumulate_step st ct dt sp cp ar n m s)"
proof -
  have "harmonic_terms (time_adjust (cs_gm s) dt n m (cs_tc s)) sp cp n m = (0, 0)"
    using assms by (intro harmonic_terms_zero time_adjust_zero) (simp_all add: no_field_def)
  with assms show ?thesis
    by (simp add: no_field_def accumulate_step_def pole_step_def Let_def)
qed

lemma main_inner_no_field:
  "no_field s \<Longrightarrow> no_field (main_inner st ct dt sp cp ar n D4 m s)"
  by (rule main_inner_invariant [where lo = m and P = no_field])
    (simp_all add: accumulate_step_no_field legendre_step_no_field)

lemma main_degree_no_field:
  "no_field (snd ars) \<Longrightarrow> no_field (snd (main_degree st ct dt sp cp aor n ars))"
  by (cases ars) (simp add: main_degree_def Let_def main_inner_no_field)

lemma main_outer_no_field:
  "no_field (snd ars) \<Longrightarrow> no_field (snd (main_outer st ct dt sp cp aor n ars))"
  by (rule main_outer_invariant [where lo = n and P = "\<lambda>ars. no_field (snd ars)"])
    (simp_all add: main_degree_no_field)

lemma field_vector_no_field:
  assumes "gm_c g = (\<lambda>i j. 0)" and "gm_cd g = (\<lambda>i j. 0)"
  shows "snd (field_vector g glat glon alt dt) = (0, 0, 0)"
proof -
  obtain ct st r ca sa sp cp ar s0 s where
    s0: "cs_gm s0 = g \<and> cs_bt s0 = 0 \<and> cs_bp s0 = 0 \<and> cs_br s0 = 0 \<and> cs_bpp s0 = 0"
    and s: "s = snd (main_outer st ct dt sp cp (WGS84_RE / r) 1 (ar, s0))"
    and fv: "field_vector g glat glon alt dt =
       (cs_gm s, - cs_bt s * ca - cs_br s * sa,
        (if st = 0 then cs_bpp s else cs_bp s / st), cs_bt s * sa - cs_br s * ca)"
    using field_vector_loop [of glat alt g dt glon] by blast
  have "no_field (snd (ar, s0))"
    using s0 assms by (simp add: no_field_def)
  then have "no_field s"
    unfolding s by (rule main_outer_no_field)
  then show ?thesis
    by (simp add: fv no_field_def)
qed

subsection \<open>The cell of p that holds the Legendre function of degree 1 and order 0\<close>

lemma legendre_step_size: "gm_size (cs_gm (legendre_step st ct n m s)) = gm_size (cs_gm s)"
  by (simp add: legendre_step_def Let_def)

lemma legendre_step_p1:
  assumes "2 \<le> n" and "0 \<le> m" and "2 \<le> gm_size (cs_gm s)"
  shows "gm_p (cs_gm (legendre_step st ct n m s)) 1 = gm_p (cs_gm s) 1"
proof -
  have nonneg: "0 \<le> m * gm_size (cs_gm s)"
    using assms(2,3) by simp
  have above: "2 \<le> m * gm_size (cs_gm s)" if "n - 2 < m"
  proof -
    have "1 \<le> m"
      using that assms(1) by simp
    then have "1 * gm_size (cs_gm s) \<le> m * gm_size (cs_gm s)"
      using assms(3) by (intro mult_right_mono) simp_all
    then have "gm_size (cs_gm s) \<le> m * gm_size (cs_gm s)"
      by (simp only: mult_1)
    with assms(3) show ?thesis by linarith
  qed
  show ?thesis
    using assms(1) nonneg above by (auto simp add: legendre_step_def Let_def)
qed

lemma main_inner_p1:
  assumes "2 \<le> n" and "0 \<le> m" and "2 \<le> gm_size (cs_gm s)"
  shows "gm_size (cs_gm (main_inner st ct dt sp cp ar n D4 m s)) = gm_size (cs_gm s) \<and>
         gm_p (cs_gm (main_inner st ct dt sp cp ar n D4 m s)) 1 = gm_p (cs_gm s) 1"
proof -
  let ?P = "\<lambda>s'. gm_size (cs_gm s') = gm_size (cs_gm s) \<and> gm_p (cs_gm s') 1 = gm_p (cs_gm s) 1"
  have "?P (main_inner st ct dt sp cp ar n D4 m s)"
  proof (rule main_inner_invariant [where lo = 0 and P = ?P])
    fix m' :: int and s' :: calc_state
    assume "0 \<le> m'" and "?P s'"
    then show "?P (accumulate_step st ct dt sp cp ar n m' (legendre_step st ct n m' s'))"
      using assms(1,3) by (simp add: accumulate_step_gm legendre_step_size legendre_step_p1)
  qed (simp_all add: assms(2))
  then show ?thesis .
qed

lemma main_degree_p1:
  assumes "2 \<le> n" and "2 \<le> gm_size (cs_gm (snd ars))"
  shows "gm_size (cs_gm (snd (main_degree st ct dt sp cp aor n ars))) = gm_size (cs_gm (snd ars)) \<and>
         gm_p (cs_gm (snd (main_degree st ct dt sp cp aor n ars))) 1 = gm_p (cs_gm (snd ars)) 1"
  using assms main_inner_p1 [of n 0 "snd ars"]
  by (cases ars) (simp add: main_degree_def Let_def)

lemma main_outer_p1:
  assumes "2 \<le> n" and "2 \<le> gm_size (cs_gm (snd ars))"
  shows "gm_p (cs_gm (snd (main_outer st ct dt sp cp aor n ars))) 1 = gm_p (cs_gm (snd ars)) 1"
proof -
  let ?P = "\<lambda>ars'. gm_size (cs_gm (snd ars')) = gm_size (cs_gm (snd ars)) \<and>
              gm_p (cs_gm (snd ars')) 1 = gm_p (cs_gm (snd ars)) 1"
  have "?P (main_outer st ct dt sp cp aor n ars)"
  proof (rule main_outer_invariant [where lo = n and P = ?P])
    fix n' :: int and ars' :: "real \<times> calc_state"
    assume "n \<le> n'" and "?P ars'"
    then show "?P (main_degree st ct dt sp cp aor n' ars')"
      using assms main_degree_p1 [of n' ars'] by simp
  qed simp_all
  then show ?thesis by simp
qed

text \<open>Degree 1: the loop runs for the orders 0 and 1.\<close>

lemma main_degree_one:
  assumes "2 \<le> gm_size (cs_gm s)"
  shows "gm_size (cs_gm (snd (main_degree st ct dt sp cp aor 1 (ar, s)))) = gm_size (cs_gm s) \<and>
         gm_p (cs_gm (snd (main_degree st ct dt sp cp aor 1 (ar, s)))) 1 = ct * gm_p (cs_gm s) 0"
proof -
  define s1 where "s1 = accumulate_step st ct dt sp cp (ar * aor) 1 0 (legendre_step st ct 1 0 s)"
  define s2 where "s2 = accumulate_step st ct dt sp cp (ar * aor) 1 1 (legendre_step st ct 1 1 s1)"
  have "main_inner st ct dt sp cp (ar * aor) 1 2 0 s = main_inner st ct dt sp cp (ar * aor) 1 1 1 s1"
    by (subst main_inner.simps) (simp add: s1_def)
  also have "\<dots> = main_inner st ct dt sp cp (ar * aor) 1 0 2 s2"
    by (subst main_inner.simps) (simp add: s2_def)
  also have "\<dots> = s2"
    by (subst main_inner.simps) simp
  finally have loop: "snd (main_degree st ct dt sp cp aor 1 (ar, s)) = s2"
    by (simp add: main_degree_def Let_def)
  have s1: "gm_size (cs_gm s1) = gm_size (cs_gm s)" "gm_p (cs_gm s1) 1 = ct * gm_p (cs_gm s) 0"
    by (simp_all add: s1_def accumulate_step_gm legendre_step_def Let_def)
  have s2: "gm_size (cs_gm s2) = gm_size (cs_gm s1)" "gm_p (cs_gm s2) 1 = gm_p (cs_gm s1) 1"
    using assms s1(1) by (simp_all add: s2_def accumulate_step_gm legendre_step_def Let_def)
  show ?thesis
    by (simp add: loop s1 s2)
qed

lemma main_outer_from_one:
  assumes "1 \<le> gm_maxord (cs_gm s)" and "2 \<le> gm_size (cs_gm s)"
  shows "gm_p (cs_gm (snd (main_outer st ct dt sp cp aor 1 (ar, s)))) 1 = ct * gm_p (cs_gm s) 0"
proof -
  have "main_outer st ct dt sp cp aor 1 (ar, s) =
      main_outer st ct dt sp cp aor 2 (main_degree st ct dt sp cp aor 1 (ar, s))"
    using assms(1) by (subst main_outer.simps) simp
  then show ?thesis
    using main_degree_one [OF assms(2), of st ct dt sp cp aor ar]
      main_outer_p1 [of 2 "main_degree st ct dt sp cp aor 1 (ar, s)"] assms(2)
    by simp
qed

lemma field_vector_p1:
  assumes "1 \<le> gm_maxord g" and "2 \<le> gm_size g"
  shows "gm_p (fst (field_vector g glat glon alt dt)) 1 =
           fst (geodetic_to_spherical glat alt) * gm_p g 0"
proof -
  obtain ct st r ca sa sp cp ar s0 s where
    sph: "geodetic_to_spherical glat alt = (ct, st, r, ca, sa)"
    and s0: "cs_gm s0 = g"
    and s: "s = snd (main_outer st ct dt sp cp (WGS84_RE / r) 1 (ar, s0))"
    and fv: "field_vector g glat glon alt dt =
       (cs_gm s, - cs_bt s * ca - cs_br s * sa,
        (if st = 0 then cs_bpp s else cs_bp s / st), cs_bt s * sa - cs_br s * ca)"
    using field_vector_loop [of glat alt g dt glon] by blast
  show ?thesis
    using main_outer_from_one [of s0 st ct dt sp cp "WGS84_RE / r" ar] assms
    by (simp add: fv s s0 sph)
qed

lemma colatitude_at_equator: "fst (geodetic_to_spherical 0 alt) = 0"
  by (simp add: geodetic_to_spherical_def Let_def DEG2RAD_def)

subsection \<open>The two ways through geomag\_calculate\<close>

lemma field_result_code:
  "fst (field_result b_x b_y b_z glat glon raise res) =
     (if raise then
        (if r_h (snd (field_result b_x b_y b_z glat glon raise res)) < 2000 then - 2
         else if r_h (snd (field_result b_x b_y b_z glat glon raise res)) < 6000 then - 3
         else 0)
      else 0)"
  by (simp add: field_result_def Let_def BLACKOUT_ZONE_def CAUTION_ZONE_def)

lemma field_result_flags:
  "r_in_blackout_zone (snd (field_result b_x b_y b_z glat glon raise res)) =
     (r_h (snd (field_result b_x b_y b_z glat glon raise res)) < 2000 \<or> r_in_blackout_zone res)"
  "r_in_caution_zone (snd (field_result b_x b_y b_z glat glon raise res)) =
     (2000 \<le> r_h (snd (field_result b_x b_y b_z glat glon raise res)) \<and>
        r_h (snd (field_result b_x b_y b_z glat glon raise res)) < 6000 \<or> r_in_caution_zone res)"
  by (auto simp add: field_result_def Let_def BLACKOUT_ZONE_def CAUTION_ZONE_def)

lemma field_result_values:
  "r_f (snd (field_result b_x b_y b_z glat glon raise res)) =
     sqrt (sqrt (b_x * b_x + b_y * b_y) * sqrt (b_x * b_x + b_y * b_y) + b_z * b_z)"
  "r_d (snd (field_result b_x b_y b_z glat glon raise res)) = RAD2DEG (atan2 b_y b_x)"
  "r_i (snd (field_result b_x b_y b_z glat glon raise res)) =
     RAD2DEG (atan2 b_z (sqrt (b_x * b_x + b_y * b_y)))"
  "r_gv (snd (field_result b_x b_y b_z glat glon raise res)) =
     grid_variation glat glon (RAD2DEG (atan2 b_y b_x))"
  by (simp_all add: field_result_def Let_def)

lemma field_result_components:
  "r_x (snd (field_result b_x b_y b_z glat glon raise res)) =
     r_f (snd (field_result b_x b_y b_z glat glon raise res)) *
     cos (DEG2RAD (r_d (snd (field_result b_x b_y b_z glat glon raise res)))) *
     cos (DEG2RAD (r_i (snd (field_result b_x b_y b_z glat glon raise res))))"
  "r_y (snd (field_result b_x b_y b_z glat glon raise res)) =
     r_f (snd (field_result b_x b_y b_z glat glon raise res)) *
     cos (DEG2RAD (r_i (snd (field_result b_x b_y b_z glat glon raise res)))) *
     sin (DEG2RAD (r_d (snd (field_result b_x b_y b_z glat glon raise res))))"
  "r_z (snd (field_result b_x b_y b_z glat glon raise res)) =
     r_f (snd (field_result b_x b_y b_z glat glon raise res)) *
     sin (DEG2RAD (r_i (snd (field_result b_x b_y b_z glat glon raise res))))"
  "r_h (snd (field_result b_x b_y b_z glat glon raise res)) =
     r_f (snd (field_result b_x b_y b_z glat glon raise res)) *
     cos (DEG2RAD (r_i (snd (field_result b_x b_y b_z glat glon raise res))))"
  by (simp_all add: field_result_def Let_def)

lemma geomag_calculate_rejected:
  "\<not> allow \<Longrightarrow> time - gm_epoch g < 0 \<or> time - gm_epoch g > 5 \<Longrightarrow>
   geomag_calculate (Some g) glat glon alt time allow raise (Some res) =
     (- 1, Some g, Some (init_result g glat glon alt time res))"
  by (simp add: geomag_calculate_def Let_def)

text \<open>
  A call that passes the date check: the structure is the one \<open>field_vector\<close> leaves,
  the return code and the result are those of \<open>field_result\<close> at some field vector.
\<close>

lemma geomag_calculate_accepted:
  assumes "allow \<or> (0 \<le> time - gm_epoch g \<and> time - gm_epoch g \<le> 5)"
  shows "\<exists>b_x b_y b_z.
     snd (field_vector g glat glon alt (time - gm_epoch g)) = (b_x, b_y, b_z) \<and>
     geomag_calculate (Some g) glat glon alt time allow raise (Some res) =
       (fst (field_result b_x b_y b_z glat glon raise (init_result g glat glon alt time res)),
        Some (fst (field_vector g glat glon alt (time - gm_epoch g))),
        Some (snd (field_result b_x b_y b_z glat glon raise (init_result g glat glon alt time res))))"
proof -
  obtain g1 b_x b_y b_z where fv:
    "field_vector g glat glon alt (time - gm_epoch g) = (g1, b_x, b_y, b_z)"
    by (cases "field_vector g glat glon alt (time - gm_epoch g)") auto
  obtain rc r2 where fr:
    "field_result b_x b_y b_z glat glon raise (init_result g glat glon alt time res) = (rc, r2)"
    by (cases "field_result b_x b_y b_z glat glon raise (init_result g glat glon alt time res)") auto
  have "geomag_calculate (Some g) glat glon alt time allow raise (Some res) = (rc, Some g1, Some r2)"
    using assms fv fr by (auto simp add: geomag_calculate_def Let_def)
  then show ?thesis
    using fv fr by simp
qed

subsection \<open>The angles\<close>

lemma DEG2RAD_RAD2DEG: "DEG2RAD (RAD2DEG a) = a"
  by (simp add: DEG2RAD_def RAD2DEG_def)

lemma atan2_range: "- pi < atan2 y x \<and> atan2 y x \<le> pi"
proof -
  have "- (pi / 2) < arctan (y / x)" and "arctan (y / x) < pi / 2"
    by (rule arctan_lbound, rule arctan_ubound)
  moreover have "arctan (y / x) \<le> 0" if "x < 0" and "0 \<le> y"
    using that by (simp add: divide_nonneg_neg arctan_le_zero_iff)
  moreover have "0 < arctan (y / x)" if "x < 0" and "y < 0"
    using that by (simp add: divide_neg_neg zero_less_arctan_iff)
  moreover have "0 < pi"
    by simp
  ultimately show ?thesis
    unfolding atan2_def by (auto simp add: not_less)
qed

lemma atan2_right_half: "0 \<le> x \<Longrightarrow> - (pi / 2) \<le> atan2 y x \<and> atan2 y x \<le> pi / 2"
  using arctan_lbound [of "y / x"] arctan_ubound [of "y / x"]
  by (auto simp add: atan2_def)

lemma atan2_origin: "atan2 0 0 = 0"
  by (simp add: atan2_def)

lemma RAD2DEG_atan2_range: "- 180 < RAD2DEG (atan2 y x) \<and> RAD2DEG (atan2 y x) \<le> 180"
proof -
  have "- pi < atan2 y x" and "atan2 y x \<le> pi"
    using atan2_range by simp_all
  moreover have "0 < pi"
    by simp
  ultimately show ?thesis
    by (simp add: RAD2DEG_def pos_less_divide_eq pos_divide_le_eq)
qed

subsection \<open>The grid variation\<close>

lemma grid_variation_low: "\<bar>glat\<bar> < 55 \<Longrightarrow> grid_variation glat glon d = - 999"
  by (simp add: grid_variation_def)

lemma grid_variation_high:
  assumes "55 \<le> \<bar>glat\<bar>" and "- 180 \<le> glon" and "glon \<le> 180" and "- 180 \<le> d" and "d \<le> 180"
  shows "- 180 \<le> grid_variation glat glon d \<and> grid_variation glat glon d \<le> 180"
  using assms by (auto simp add: grid_variation_def Let_def)

subsection \<open>The components\<close>

lemma reprojection:
  fixes f d i :: real
  assumes "0 \<le> f" and "0 \<le> cos i"
  shows "sqrt ((f * cos d * cos i)\<^sup>2 + (f * cos i * sin d)\<^sup>2 + (f * sin i)\<^sup>2) = f"
    and "sqrt ((f * cos d * cos i)\<^sup>2 + (f * cos i * sin d)\<^sup>2) = f * cos i"
proof -
  have factor: "(a * c)\<^sup>2 + (a * s)\<^sup>2 = a\<^sup>2 * (c\<^sup>2 + s\<^sup>2)" for a c s :: real
    by (simp add: power2_eq_square algebra_simps)
  have "(f * cos d * cos i)\<^sup>2 + (f * cos i * sin d)\<^sup>2 = (f * cos i * cos d)\<^sup>2 + (f * cos i * sin d)\<^sup>2"
    by (simp add: mult_ac)
  also have "\<dots> = (f * cos i)\<^sup>2 * ((cos d)\<^sup>2 + (sin d)\<^sup>2)"
    by (rule factor)
  finally have horizontal: "(f * cos d * cos i)\<^sup>2 + (f * cos i * sin d)\<^sup>2 = (f * cos i)\<^sup>2"
    by simp
  have "(f * cos i)\<^sup>2 + (f * sin i)\<^sup>2 = f\<^sup>2 * ((cos i)\<^sup>2 + (sin i)\<^sup>2)"
    by (rule factor)
  then have total: "(f * cos i)\<^sup>2 + (f * sin i)\<^sup>2 = f\<^sup>2"
    by simp
  show "sqrt ((f * cos d * cos i)\<^sup>2 + (f * cos i * sin d)\<^sup>2 + (f * sin i)\<^sup>2) = f"
    using assms(1) by (simp only: horizontal total real_sqrt_abs abs_of_nonneg)
  have "0 \<le> f * cos i"
    using assms by simp
  then show "sqrt ((f * cos d * cos i)\<^sup>2 + (f * cos i * sin d)\<^sup>2) = f * cos i"
    by (simp only: horizontal real_sqrt_abs abs_of_nonneg)
qed

subsection \<open>Evaluations of the sample model\<close>

lemma field_result_zero:
  "field_result 0 0 0 glat glon raise res =
     (if raise then - 2 else 0,
      res\<lparr>r_f := 0, r_d := 0, r_i := 0, r_gv := grid_variation glat glon 0,
          r_x := 0, r_y := 0, r_z := 0, r_h := 0, r_in_blackout_zone := True\<rparr>)"
  by (simp add: field_result_def Let_def atan2_origin RAD2DEG_def BLACKOUT_ZONE_def)

lemma loaded_model_calculate:
  "geomag_calculate (Some loaded_model) glat glon alt 2025 allow raise (Some res) =
     (if raise then - 2 else 0,
      Some (fst (field_vector loaded_model glat glon alt 0)),
      Some ((init_result loaded_model glat glon alt 2025 res)
        \<lparr>r_f := 0, r_d := 0, r_i := 0, r_gv := grid_variation glat glon 0,
         r_x := 0, r_y := 0, r_z := 0, r_h := 0, r_in_blackout_zone := True\<rparr>))"
proof -
  have "allow \<or> (0 \<le> 2025 - gm_epoch loaded_model \<and> 2025 - gm_epoch loaded_model \<le> 5)"
    by (simp add: loaded_model_facts)
  from geomag_calculate_accepted [OF this, of glat glon alt raise res]
  show ?thesis
    by (simp add: loaded_model_facts field_vector_no_field field_result_zero)
qed

subsection \<open>The reading loop\<close>

lemma store_coefficients_bounds:
  "gm_maxord (store_coefficients r g) = gm_maxord g"
  "gm_size (store_coefficients r g) = gm_size g"
  by (simp_all add: store_coefficients_def Let_def)

lemma read_records_stop:
  assumes "rec_n r = 9999 \<or> gm_maxord g < rec_m r"
  shows "read_records g (pre @ r # rest) = read_records g pre"
  using assms
proof (induction pre arbitrary: g)
  case Nil
  then show ?case by auto
next
  case (Cons a pre)
  then show ?case
    by (simp add: store_coefficients_bounds)
qed

lemma read_records_well_formed:
  assumes "list_all (well_formed_record (gm_maxord g)) pre" and "gm_size g = gm_maxord g + 1"
  shows "\<exists>g'. gm_maxord g' = gm_maxord g \<and> gm_size g' = gm_size g \<and>
           (\<forall>rs. read_records g (pre @ rs) = read_records g' rs)"
  using assms
proof (induction pre arbitrary: g)
  case Nil
  then show ?case by auto
next
  case (Cons a pre)
  have a: "rec_n a \<noteq> 9999" "0 \<le> rec_m a" "rec_m a \<le> rec_n a" "rec_n a \<le> gm_maxord g"
    using Cons.prems(1) by (simp_all add: well_formed_record_def)
  have step: "read_records g ((a # pre) @ rs) = read_records (store_coefficients a g) (pre @ rs)" for rs
    using a Cons.prems(2) by simp
  have "list_all (well_formed_record (gm_maxord (store_coefficients a g))) pre"
    and "gm_size (store_coefficients a g) = gm_maxord (store_coefficients a g) + 1"
    using Cons.prems by (simp_all add: store_coefficients_bounds)
  from Cons.IH [OF this] obtain g' where
    "gm_maxord g' = gm_maxord g" "gm_size g' = gm_size g"
    "\<forall>rs. read_records (store_coefficients a g) (pre @ rs) = read_records g' rs"
    by (auto simp add: store_coefficients_bounds)
  then show ?case
    using step by auto
qed

lemma store_coefficients_same:
  "same_but_h0 r r' \<Longrightarrow> store_coefficients r' g = store_coefficients r g"
  by (auto simp add: same_but_h0_def store_coefficients_def Let_def)

lemma read_records_same:
  assumes "list_all2 same_but_h0 rs rs'"
  shows "read_records g rs' = read_records g rs"
  using assms
proof (induction rs rs' arbitrary: g rule: list_all2_induct)
  case Nil
  then show ?case by simp
next
  case (Cons r rs r' rs')
  have "rec_n r' = rec_n r" and "rec_m r' = rec_m r"
    using Cons.hyps(1) by (simp_all add: same_but_h0_def)
  then show ?case
    using Cons.IH Cons.hyps(1) by (simp add: store_coefficients_same)
qed

subsection \<open>geomag\_init, through the reading loop\<close>

lemma before_reading_bounds:
  "gm_maxord (clear_coefficients h (set_model_size hr g)) = max_degree hr"
  "gm_size (clear_coefficients h (set_model_size hr g)) = max_degree hr + 1"
  by (simp_all add: clear_coefficients_def set_model_size_def max_degree_def Let_def)

lemma geomag_init_corrupt:
  assumes "read_records (clear_coefficients h (set_model_size hr g)) recs = Inl g'"
  shows "geomag_init (file_of (Some h) recs) sn (Some g) (Some path) hr = (- 1, Some g')"
  using assms by (simp add: geomag_init_def load_coefficients_def file_of_def)

lemma geomag_init_read:
  assumes "read_records (clear_coefficients h (set_model_size hr g)) recs = Inr g'"
  shows "geomag_init (file_of (Some h) recs) sn (Some g) (Some path) hr =
           (0, Some (normalise_coefficients sn g'))"
  using assms by (simp add: geomag_init_def load_coefficients_def file_of_def)

lemma geomag_init_cong:
  assumes "read_records (clear_coefficients h (set_model_size hr g)) recs' =
           read_records (clear_coefficients h (set_model_size hr g)) recs"
  shows "geomag_init (file_of (Some h) recs') sn (Some g) (Some path) hr =
         geomag_init (file_of (Some h) recs) sn (Some g) (Some path) hr"
  using assms by (simp add: geomag_init_def load_coefficients_def file_of_def)

subsection \<open>Two loads side by side: the reading loop\<close>

lemma same_core_refl: "same_core g g"
  by (simp add: same_core_def)

lemma same_core_before_reading:
  "same_core (clear_coefficients h (set_model_size hr g)) (clear_coefficients h (set_model_size hr g'))"
  by (simp add: same_core_def clear_coefficients_def set_model_size_def Let_def)

lemma same_core_store:
  assumes "same_core g g'" and "same_but_h0 r r'"
  shows "same_core (store_coefficients r g) (store_coefficients r' g')"
  using assms by (auto simp add: same_core_def same_but_h0_def store_coefficients_def Let_def)

lemma read_records_side_by_side:
  assumes "list_all2 same_but_h0 rs rs'" and "same_core g g'"
  shows "(\<exists>a a'. read_records g rs = Inl a \<and> read_records g' rs' = Inl a' \<and> same_core a a') \<or>
         (\<exists>a a'. read_records g rs = Inr a \<and> read_records g' rs' = Inr a' \<and> same_core a a')"
  using assms
proof (induction rs rs' arbitrary: g g' rule: list_all2_induct)
  case Nil
  then show ?case by simp
next
  case (Cons r rs r' rs')
  have r: "rec_n r' = rec_n r" "rec_m r' = rec_m r"
    using Cons.hyps(1) by (simp_all add: same_but_h0_def)
  have g: "gm_maxord g' = gm_maxord g" "gm_size g' = gm_size g"
    using Cons.prems by (simp_all add: same_core_def)
  show ?case
  proof (cases "rec_n r = 9999 \<or> rec_m r > gm_maxord g \<or>
      rec_m r > rec_n r \<or> rec_m r < 0 \<or> rec_n r \<ge> gm_size g \<or> rec_m r \<ge> gm_size g")
    case True
    then show ?thesis
      using Cons.prems r g by auto
  next
    case False
    then have "read_records g (r # rs) = read_records (store_coefficients r g) rs"
      and "read_records g' (r' # rs') = read_records (store_coefficients r' g') rs'"
      using r g by auto
    then show ?thesis
      using Cons.IH [OF same_core_store [OF Cons.prems Cons.hyps(1)]] by simp
  qed
qed


subsection \<open>The normalisation loops: what they keep\<close>

lemma norm_body_tables:
  "gm_fn (fst (snd (norm_body n m js))) = gm_fn (fst (snd js))"
  "gm_fm (fst (snd (norm_body n m js))) = gm_fm (fst (snd js))"
  by (simp_all add: norm_body_def Let_def split: prod.splits)

lemma norm_inner_model:
  "gm_maxord (fst (snd (norm_inner n D2 m js))) = gm_maxord (fst (snd js)) \<and>
   gm_size (fst (snd (norm_inner n D2 m js))) = gm_size (fst (snd js)) \<and>
   gm_fn (fst (snd (norm_inner n D2 m js))) = gm_fn (fst (snd js)) \<and>
   gm_fm (fst (snd (norm_inner n D2 m js))) = gm_fm (fst (snd js))"
  by (rule norm_inner_invariant [where lo = m and P = "\<lambda>js'.
       gm_maxord (fst (snd js')) = gm_maxord (fst (snd js)) \<and>
       gm_size (fst (snd js')) = gm_size (fst (snd js)) \<and>
       gm_fn (fst (snd js')) = gm_fn (fst (snd js)) \<and>
       gm_fm (fst (snd js')) = gm_fm (fst (snd js))"])
    (simp_all add: norm_body_model norm_body_tables)

lemma norm_inner_untouched:
  assumes "0 < gm_size (fst (snd js))" and "i < n + gm_size (fst (snd js))"
  shows "snd (snd (norm_inner n D2 m js)) i = snd (snd js) i"
proof -
  let ?P = "\<lambda>js' :: int \<times> GeoMag \<times> (int \<Rightarrow> real).
      gm_size (fst (snd js')) = gm_size (fst (snd js)) \<and> snd (snd js') i = snd (snd js) i"
  have "?P (norm_inner n D2 m js)"
  proof (rule norm_inner_invariant [where lo = m and P = ?P])
    fix m' :: int and js' :: "int \<times> GeoMag \<times> (int \<Rightarrow> real)"
    assume "?P js'"
    then show "?P (norm_body n m' js')"
      using assms by (simp add: norm_body_model norm_body_snorm)
  qed simp_all
  then show ?thesis by simp
qed

lemma norm_degree_model:
  "gm_maxord (fst (norm_degree n gs)) = gm_maxord (fst gs) \<and>
   gm_size (fst (norm_degree n gs)) = gm_size (fst gs) \<and>
   gm_fn (fst (norm_degree n gs)) = (gm_fn (fst gs))(n := real_of_int (n + 1)) \<and>
   gm_fm (fst (norm_degree n gs)) = (gm_fm (fst gs))(n := real_of_int n)"
proof -
  obtain g sn where gs: "gs = (g, sn)"
    by (cases gs) auto
  define sn1 where "sn1 = sn(n := sn (n - 1) * real_of_int (2 * n - 1) / real_of_int n)"
  obtain j1 g1 sn2 where inner: "norm_inner n ((n - 0 + 1) div 1) 0 (2, g, sn1) = (j1, g1, sn2)"
    by (cases "norm_inner n ((n - 0 + 1) div 1) 0 (2, g, sn1)") auto
  have "gm_maxord g1 = gm_maxord g \<and> gm_size g1 = gm_size g \<and>
      gm_fn g1 = gm_fn g \<and> gm_fm g1 = gm_fm g"
    using norm_inner_model [of n "(n - 0 + 1) div 1" 0 "(2, g, sn1)"] inner by simp
  then show ?thesis
    using inner by (simp add: gs norm_degree_def Let_def sn1_def)
qed

lemma norm_degree_untouched:
  assumes "0 < gm_size (fst gs)" and "i < n + gm_size (fst gs)" and "i \<noteq> n"
  shows "snd (norm_degree n gs) i = snd gs i"
proof -
  obtain g sn where gs: "gs = (g, sn)"
    by (cases gs) auto
  define sn1 where "sn1 = sn(n := sn (n - 1) * real_of_int (2 * n - 1) / real_of_int n)"
  obtain j1 g1 sn2 where inner: "norm_inner n ((n - 0 + 1) div 1) 0 (2, g, sn1) = (j1, g1, sn2)"
    by (cases "norm_inner n ((n - 0 + 1) div 1) 0 (2, g, sn1)") auto
  have "sn2 i = sn1 i"
    using norm_inner_untouched [of "(2, g, sn1)" i n "(n - 0 + 1) div 1" 0] inner assms(1,2)
    by (simp add: gs)
  then show ?thesis
    using inner assms(3) by (simp add: gs norm_degree_def Let_def sn1_def)
qed

text \<open>A cell of \<open>snorm\<close> above the degrees and below the first cell of order 1.\<close>

lemma norm_outer_untouched:
  assumes "0 < gm_size (fst gs)" and "gm_maxord (fst gs) < i" and "i < n + gm_size (fst gs)"
  shows "snd (norm_outer n gs) i = snd gs i"
  using assms
proof (induction n gs rule: norm_outer.induct)
  case (1 n gs)
  show ?case
  proof (cases "n \<le> gm_maxord (fst gs)")
    case True
    have "snd (norm_outer (n + 1) (norm_degree n gs)) i = snd (norm_degree n gs) i"
      using "1.IH" [OF True] "1.prems" by (simp add: norm_degree_model)
    also have "\<dots> = snd gs i"
      using "1.prems" True by (intro norm_degree_untouched) simp_all
    finally show ?thesis
      using True by (subst norm_outer.simps) simp
  next
    case False
    then show ?thesis
      by (subst norm_outer.simps) simp
  qed
qed

lemma norm_outer_model:
  "gm_maxord (fst (norm_outer n gs)) = gm_maxord (fst gs) \<and>
   gm_size (fst (norm_outer n gs)) = gm_size (fst gs)"
  by (rule norm_outer_invariant [where lo = n and P = "\<lambda>gs'.
       gm_maxord (fst gs') = gm_maxord (fst gs) \<and> gm_size (fst gs') = gm_size (fst gs)"])
    (simp_all add: norm_degree_model)


subsection \<open>Two loads side by side: the normalisation\<close>

text \<open>
  One turn of the inner loop reads one cell of \<open>snorm\<close> that an earlier turn wrote: the
  cell of the order before, or the cell of order 0 that the outer loop wrote.
\<close>

lemma norm_body_side_by_side:
  assumes "same_core g g'" and "0 \<le> m"
    and "0 < m \<longrightarrow> sn' (n + (m - 1) * gm_size g) = sn (n + (m - 1) * gm_size g)"
    and "m = 0 \<longrightarrow> sn' n = sn n"
  shows "fst (norm_body n m (j, g', sn')) = fst (norm_body n m (j, g, sn))"
    and "same_core (fst (snd (norm_body n m (j, g, sn)))) (fst (snd (norm_body n m (j, g', sn'))))"
    and "snd (snd (norm_body n m (j, g', sn'))) (n + m * gm_size g) =
         snd (snd (norm_body n m (j, g, sn))) (n + m * gm_size g)"
    and "sn' i = sn i \<Longrightarrow>
         snd (snd (norm_body n m (j, g', sn'))) i = snd (snd (norm_body n m (j, g, sn))) i"
  using assms by (auto simp add: norm_body_def Let_def same_core_def)

lemma norm_inner_side_by_side:
  assumes "0 \<le> m" and "fst js' = fst js" and "same_core (fst (snd js)) (fst (snd js'))"
    and "0 < m \<longrightarrow> snd (snd js') (n + (m - 1) * gm_size (fst (snd js))) =
           snd (snd js) (n + (m - 1) * gm_size (fst (snd js)))"
    and "m = 0 \<longrightarrow> snd (snd js') n = snd (snd js) n"
  shows "fst (norm_inner n D2 m js') = fst (norm_inner n D2 m js) \<and>
         same_core (fst (snd (norm_inner n D2 m js))) (fst (snd (norm_inner n D2 m js'))) \<and>
         (\<forall>i. snd (snd js') i = snd (snd js) i \<longrightarrow>
            snd (snd (norm_inner n D2 m js')) i = snd (snd (norm_inner n D2 m js)) i) \<and>
         (\<forall>m'. m \<le> m' \<and> m' < m + D2 \<longrightarrow>
            snd (snd (norm_inner n D2 m js')) (n + m' * gm_size (fst (snd js))) =
            snd (snd (norm_inner n D2 m js)) (n + m' * gm_size (fst (snd js))))"
  using assms
proof (induction n D2 m js arbitrary: js' rule: norm_inner.induct)
  case (1 n D2 m js)
  show ?case
  proof (cases "D2 > 0")
    case False
    then show ?thesis
      using "1.prems" by (simp add: norm_inner.simps [of n D2 m])
  next
    case True
    obtain j g sn where js: "js = (j, g, sn)"
      by (cases js) auto
    obtain j' g' sn' where js': "js' = (j', g', sn')"
      by (cases js') auto
    have j: "j' = j" and core: "same_core g g'"
      and cell: "0 < m \<longrightarrow> sn' (n + (m - 1) * gm_size g) = sn (n + (m - 1) * gm_size g)"
      and cell0: "m = 0 \<longrightarrow> sn' n = sn n"
      using "1.prems" by (simp_all add: js js')
    let ?b = "norm_body n m js" and ?b' = "norm_body n m js'"
    have b1: "fst ?b' = fst ?b"
      and b2: "same_core (fst (snd ?b)) (fst (snd ?b'))"
      and b3: "snd (snd ?b') (n + m * gm_size g) = snd (snd ?b) (n + m * gm_size g)"
      and b4: "sn' i = sn i \<Longrightarrow> snd (snd ?b') i = snd (snd ?b) i" for i
      unfolding js js' j by (rule norm_body_side_by_side [OF core "1.prems"(1) cell cell0])+
    have size: "gm_size (fst (snd ?b)) = gm_size g"
      by (simp add: norm_body_model js)
    have next_cell: "0 < m + 1 \<longrightarrow> snd (snd ?b') (n + (m + 1 - 1) * gm_size (fst (snd ?b))) =
        snd (snd ?b) (n + (m + 1 - 1) * gm_size (fst (snd ?b)))"
      using b3 by (simp add: size)
    have next_cell0: "m + 1 = 0 \<longrightarrow> snd (snd ?b') n = snd (snd ?b) n"
      using "1.prems"(1) by simp
    have "0 \<le> m + 1"
      using "1.prems"(1) by simp
    note IH = "1.IH" [OF True this b1 b2 next_cell next_cell0]
    have unfold: "norm_inner n D2 m js = norm_inner n (D2 - 1) (m + 1) ?b"
      "norm_inner n D2 m js' = norm_inner n (D2 - 1) (m + 1) ?b'"
      using True by (simp_all add: norm_inner.simps [of n D2 m])
    have "snd (snd (norm_inner n D2 m js')) (n + m' * gm_size (fst (snd js))) =
          snd (snd (norm_inner n D2 m js)) (n + m' * gm_size (fst (snd js)))"
      if "m \<le> m'" and "m' < m + D2" for m'
    proof (cases "m' = m")
      case True
      then show ?thesis
        unfolding unfold using IH b3 by (simp add: js)
    next
      case False
      then have "m + 1 \<le> m'" and "m' < m + 1 + (D2 - 1)"
        using that by simp_all
      then show ?thesis
        unfolding unfold using IH by (simp add: js norm_body_model)
    qed
    moreover have "snd (snd (norm_inner n D2 m js')) i = snd (snd (norm_inner n D2 m js)) i"
      if "snd (snd js') i = snd (snd js) i" for i
      unfolding unfold using IH b4 [of i] that by (simp add: js js')
    ultimately show ?thesis
      unfolding unfold using IH by simp
  qed
qed


lemma norm_degree_side_by_side:
  assumes "0 \<le> n" and "same_core (fst gs) (fst gs')" and "snd gs' (n - 1) = snd gs (n - 1)"
  shows "same_core (fst (norm_degree n gs)) (fst (norm_degree n gs')) \<and>
         (\<forall>i. snd gs' i = snd gs i \<longrightarrow> snd (norm_degree n gs') i = snd (norm_degree n gs) i) \<and>
         (\<forall>m. 0 \<le> m \<and> m \<le> n \<longrightarrow>
            snd (norm_degree n gs') (n + m * gm_size (fst gs)) =
            snd (norm_degree n gs) (n + m * gm_size (fst gs)))"
proof -
  obtain g sn where gs: "gs = (g, sn)"
    by (cases gs) auto
  obtain g' sn' where gs': "gs' = (g', sn')"
    by (cases gs') auto
  define s1 where "s1 = sn(n := sn (n - 1) * real_of_int (2 * n - 1) / real_of_int n)"
  define s1' where "s1' = sn'(n := sn' (n - 1) * real_of_int (2 * n - 1) / real_of_int n)"
  let ?r = "norm_inner n ((n - 0 + 1) div 1) 0 (2, g, s1)"
  let ?r' = "norm_inner n ((n - 0 + 1) div 1) 0 (2, g', s1')"
  have core: "same_core g g'" and prev: "sn' (n - 1) = sn (n - 1)"
    using assms by (simp_all add: gs gs')
  have cell: "s1' n = s1 n"
    by (simp add: s1_def s1'_def prev)
  have keep: "s1' i = s1 i" if "sn' i = sn i" for i
    using that prev by (simp add: s1_def s1'_def)
  have inner: "fst ?r' = fst ?r \<and> same_core (fst (snd ?r)) (fst (snd ?r')) \<and>
      (\<forall>i. s1' i = s1 i \<longrightarrow> snd (snd ?r') i = snd (snd ?r) i) \<and>
      (\<forall>m. 0 \<le> m \<and> m < 0 + (n - 0 + 1) div 1 \<longrightarrow>
         snd (snd ?r') (n + m * gm_size g) = snd (snd ?r) (n + m * gm_size g))"
    using norm_inner_side_by_side [of 0 "(2, g', s1')" "(2, g, s1)" n "(n - 0 + 1) div 1"]
      core cell by simp
  have out: "norm_degree n gs =
      ((fst (snd ?r))\<lparr>gm_fn := (gm_fn (fst (snd ?r)))(n := real_of_int (n + 1)),
                       gm_fm := (gm_fm (fst (snd ?r)))(n := real_of_int n)\<rparr>, snd (snd ?r))"
    by (simp add: gs norm_degree_def Let_def s1_def split: prod.splits)
  have out': "norm_degree n gs' =
      ((fst (snd ?r'))\<lparr>gm_fn := (gm_fn (fst (snd ?r')))(n := real_of_int (n + 1)),
                        gm_fm := (gm_fm (fst (snd ?r')))(n := real_of_int n)\<rparr>, snd (snd ?r'))"
    by (simp add: gs' norm_degree_def Let_def s1'_def split: prod.splits)
  have "same_core (fst (norm_degree n gs)) (fst (norm_degree n gs'))"
    unfolding out out' using inner by (simp add: same_core_def)
  moreover have "snd (norm_degree n gs') i = snd (norm_degree n gs) i" if "snd gs' i = snd gs i" for i
    unfolding out out' using inner keep [of i] that by (simp add: gs gs')
  moreover have "snd (norm_degree n gs') (n + m * gm_size (fst gs)) =
      snd (norm_degree n gs) (n + m * gm_size (fst gs))" if "0 \<le> m" and "m \<le> n" for m
    unfolding out out' using inner that by (simp add: gs)
  ultimately show ?thesis
    by blast
qed

lemma norm_outer_side_by_side:
  assumes "1 \<le> n" and "same_core (fst gs) (fst gs')" and "snd gs' (n - 1) = snd gs (n - 1)"
  shows "same_core (fst (norm_outer n gs)) (fst (norm_outer n gs')) \<and>
         (\<forall>i. snd gs' i = snd gs i \<longrightarrow> snd (norm_outer n gs') i = snd (norm_outer n gs) i) \<and>
         (\<forall>i. gm_fn (fst gs') i = gm_fn (fst gs) i \<longrightarrow>
            gm_fn (fst (norm_outer n gs')) i = gm_fn (fst (norm_outer n gs)) i) \<and>
         (\<forall>i. gm_fm (fst gs') i = gm_fm (fst gs) i \<longrightarrow>
            gm_fm (fst (norm_outer n gs')) i = gm_fm (fst (norm_outer n gs)) i) \<and>
         (\<forall>k. n \<le> k \<and> k \<le> gm_maxord (fst gs) \<longrightarrow>
            gm_fn (fst (norm_outer n gs')) k = gm_fn (fst (norm_outer n gs)) k \<and>
            gm_fm (fst (norm_outer n gs')) k = gm_fm (fst (norm_outer n gs)) k \<and>
            (\<forall>m. 0 \<le> m \<and> m \<le> k \<longrightarrow>
               snd (norm_outer n gs') (k + m * gm_size (fst gs)) =
               snd (norm_outer n gs) (k + m * gm_size (fst gs))))"
  using assms
proof (induction n gs arbitrary: gs' rule: norm_outer.induct)
  case (1 n gs)
  have maxord: "gm_maxord (fst gs') = gm_maxord (fst gs)"
    using "1.prems"(2) by (simp add: same_core_def)
  show ?case
  proof (cases "n \<le> gm_maxord (fst gs)")
    case False
    then show ?thesis
      using "1.prems" maxord
      by (simp add: norm_outer.simps [of n gs] norm_outer.simps [of n gs'])
  next
    case True
    let ?d = "norm_degree n gs" and ?d' = "norm_degree n gs'"
    have unfold: "norm_outer n gs = norm_outer (n + 1) ?d" "norm_outer n gs' = norm_outer (n + 1) ?d'"
      using True maxord by (simp_all add: norm_outer.simps [of n gs] norm_outer.simps [of n gs'])
    have "0 \<le> n"
      using "1.prems"(1) by simp
    note D = norm_degree_side_by_side [OF this "1.prems"(2,3)]
    have model: "gm_maxord (fst ?d) = gm_maxord (fst gs)" "gm_size (fst ?d) = gm_size (fst gs)"
      "gm_fn (fst ?d) = (gm_fn (fst gs))(n := real_of_int (n + 1))"
      "gm_fm (fst ?d) = (gm_fm (fst gs))(n := real_of_int n)"
      "gm_fn (fst ?d') = (gm_fn (fst gs'))(n := real_of_int (n + 1))"
      "gm_fm (fst ?d') = (gm_fm (fst gs'))(n := real_of_int n)"
      using norm_degree_model [of n gs] norm_degree_model [of n gs'] by simp_all
    have cell: "snd ?d' (n + 1 - 1) = snd ?d (n + 1 - 1)"
      using D \<open>0 \<le> n\<close> by (auto dest: spec [of _ 0])
    have "1 \<le> n + 1"
      using \<open>0 \<le> n\<close> by simp
    note IH = "1.IH" [OF True this _ cell]
    have IH': "same_core (fst (norm_outer (n + 1) ?d)) (fst (norm_outer (n + 1) ?d')) \<and>
         (\<forall>i. snd ?d' i = snd ?d i \<longrightarrow>
            snd (norm_outer (n + 1) ?d') i = snd (norm_outer (n + 1) ?d) i) \<and>
         (\<forall>i. gm_fn (fst ?d') i = gm_fn (fst ?d) i \<longrightarrow>
            gm_fn (fst (norm_outer (n + 1) ?d')) i = gm_fn (fst (norm_outer (n + 1) ?d)) i) \<and>
         (\<forall>i. gm_fm (fst ?d') i = gm_fm (fst ?d) i \<longrightarrow>
            gm_fm (fst (norm_outer (n + 1) ?d')) i = gm_fm (fst (norm_outer (n + 1) ?d)) i) \<and>
         (\<forall>k. n + 1 \<le> k \<and> k \<le> gm_maxord (fst gs) \<longrightarrow>
            gm_fn (fst (norm_outer (n + 1) ?d')) k = gm_fn (fst (norm_outer (n + 1) ?d)) k \<and>
            gm_fm (fst (norm_outer (n + 1) ?d')) k = gm_fm (fst (norm_outer (n + 1) ?d)) k \<and>
            (\<forall>m. 0 \<le> m \<and> m \<le> k \<longrightarrow>
               snd (norm_outer (n + 1) ?d') (k + m * gm_size (fst gs)) =
               snd (norm_outer (n + 1) ?d) (k + m * gm_size (fst gs))))"
      using IH D by (simp add: model(1,2))
    have sn: "snd (norm_outer n gs') i = snd (norm_outer n gs) i" if "snd gs' i = snd gs i" for i
      unfolding unfold using IH' D that by blast
    have fn: "gm_fn (fst (norm_outer n gs')) i = gm_fn (fst (norm_outer n gs)) i"
      if "gm_fn (fst gs') i = gm_fn (fst gs) i" for i
      unfolding unfold using IH' that by (simp add: model)
    have fm: "gm_fm (fst (norm_outer n gs')) i = gm_fm (fst (norm_outer n gs)) i"
      if "gm_fm (fst gs') i = gm_fm (fst gs) i" for i
      unfolding unfold using IH' that by (simp add: model)
    have range: "gm_fn (fst (norm_outer n gs')) k = gm_fn (fst (norm_outer n gs)) k \<and>
        gm_fm (fst (norm_outer n gs')) k = gm_fm (fst (norm_outer n gs)) k \<and>
        (\<forall>m. 0 \<le> m \<and> m \<le> k \<longrightarrow>
           snd (norm_outer n gs') (k + m * gm_size (fst gs)) =
           snd (norm_outer n gs) (k + m * gm_size (fst gs)))"
      if "n \<le> k" and "k \<le> gm_maxord (fst gs)" for k
    proof (cases "k = n")
      case False
      then show ?thesis
        unfolding unfold using IH' that by simp
    next
      case k: True
      have "gm_fn (fst ?d') n = gm_fn (fst ?d) n" and "gm_fm (fst ?d') n = gm_fm (fst ?d) n"
        by (simp_all add: model)
      moreover have "snd ?d' (n + m * gm_size (fst gs)) = snd ?d (n + m * gm_size (fst gs))"
        if "0 \<le> m" and "m \<le> n" for m
        using D that by blast
      ultimately show ?thesis
        unfolding unfold k using IH' by blast
    qed
    show ?thesis
      using IH' sn fn fm range unfolding unfold by blast
  qed
qed


lemma normalise_coefficients_loop:
  "normalise_coefficients sn g =
     (fst (norm_outer 1 (g\<lparr>gm_fm := (gm_fm g)(0 := 0)\<rparr>, sn(0 := 1))))
       \<lparr>gm_k := upd2 (gm_k (fst (norm_outer 1 (g\<lparr>gm_fm := (gm_fm g)(0 := 0)\<rparr>, sn(0 := 1))))) 1 1 0,
        gm_p := snd (norm_outer 1 (g\<lparr>gm_fm := (gm_fm g)(0 := 0)\<rparr>, sn(0 := 1)))\<rparr>"
  by (simp add: normalise_coefficients_def Let_def split: prod.splits)

lemma normalise_coefficients_model:
  "gm_maxord (normalise_coefficients sn g) = gm_maxord g"
  "gm_size (normalise_coefficients sn g) = gm_size g"
  using norm_outer_model [of 1 "(g\<lparr>gm_fm := (gm_fm g)(0 := 0)\<rparr>, sn(0 := 1))"]
  by (simp_all add: normalise_coefficients_loop)

lemma normalise_coefficients_untouched:
  assumes "0 < gm_size g" and "gm_maxord g < i" and "i < 1 + gm_size g" and "i \<noteq> 0"
  shows "gm_p (normalise_coefficients sn g) i = sn i"
  using norm_outer_untouched [of "(g\<lparr>gm_fm := (gm_fm g)(0 := 0)\<rparr>, sn(0 := 1))" i 1] assms
  by (simp add: normalise_coefficients_loop)

lemma normalise_coefficients_side_by_side:
  assumes "same_core g g'"
  shows "same_core (normalise_coefficients sn g) (normalise_coefficients sn' g') \<and>
         (\<forall>k. 0 \<le> k \<and> k \<le> gm_maxord g \<longrightarrow>
            gm_fm (normalise_coefficients sn' g') k = gm_fm (normalise_coefficients sn g) k) \<and>
         (\<forall>k. 1 \<le> k \<and> k \<le> gm_maxord g \<longrightarrow>
            gm_fn (normalise_coefficients sn' g') k = gm_fn (normalise_coefficients sn g) k) \<and>
         (\<forall>n m. 0 \<le> m \<and> m \<le> n \<and> n \<le> gm_maxord g \<longrightarrow>
            gm_p (normalise_coefficients sn' g') (n + m * gm_size g) =
            gm_p (normalise_coefficients sn g) (n + m * gm_size g))"
proof -
  define gs where "gs = (g\<lparr>gm_fm := (gm_fm g)(0 := 0)\<rparr>, sn(0 := 1))"
  define gs' where "gs' = (g'\<lparr>gm_fm := (gm_fm g')(0 := 0)\<rparr>, sn'(0 := 1))"
  let ?o = "norm_outer 1 gs" and ?o' = "norm_outer 1 gs'"
  have out: "normalise_coefficients sn g = (fst ?o)\<lparr>gm_k := upd2 (gm_k (fst ?o)) 1 1 0, gm_p := snd ?o\<rparr>"
    and out': "normalise_coefficients sn' g' =
      (fst ?o')\<lparr>gm_k := upd2 (gm_k (fst ?o')) 1 1 0, gm_p := snd ?o'\<rparr>"
    by (simp_all add: normalise_coefficients_loop gs_def gs'_def)
  have start: "same_core (fst gs) (fst gs')" "snd gs' (1 - 1) = snd gs (1 - 1)"
    "gm_fm (fst gs') 0 = gm_fm (fst gs) 0" "snd gs' 0 = snd gs 0"
    "gm_maxord (fst gs) = gm_maxord g" "gm_size (fst gs) = gm_size g"
    using assms by (simp_all add: gs_def gs'_def same_core_def)
  have "(1::int) \<le> 1"
    by simp
  note O = norm_outer_side_by_side [OF this start(1,2), unfolded start(5,6)]
  have core: "same_core (normalise_coefficients sn g) (normalise_coefficients sn' g')"
    unfolding out out' using O by (simp add: same_core_def)
  have fm: "gm_fm (normalise_coefficients sn' g') k = gm_fm (normalise_coefficients sn g) k"
    if "0 \<le> k" and "k \<le> gm_maxord g" for k
  proof (cases "k = 0")
    case True
    then show ?thesis
      unfolding out out' using O start(3) by simp
  next
    case False
    then have "1 \<le> k"
      using that by simp
    then show ?thesis
      unfolding out out' using O that by simp
  qed
  have fn: "gm_fn (normalise_coefficients sn' g') k = gm_fn (normalise_coefficients sn g) k"
    if "1 \<le> k" and "k \<le> gm_maxord g" for k
    unfolding out out' using O that by simp
  have p: "gm_p (normalise_coefficients sn' g') (n + m * gm_size g) =
      gm_p (normalise_coefficients sn g) (n + m * gm_size g)"
    if "0 \<le> m" and "m \<le> n" and "n \<le> gm_maxord g" for n m
  proof (cases "n = 0")
    case True
    then have "n + m * gm_size g = 0"
      using that by simp
    then show ?thesis
      unfolding out out' using O start(4) by simp
  next
    case False
    then have "1 \<le> n"
      using that by simp
    then show ?thesis
      unfolding out out' using O that by simp
  qed
  show ?thesis
    using core fm fn p by blast
qed

lemma geomag_init_well_formed:
  assumes "list_all (well_formed_record (max_degree hr)) recs"
  shows "\<exists>a. gm_maxord a = max_degree hr \<and> gm_size a = max_degree hr + 1 \<and>
           (\<forall>sn. geomag_init (file_of (Some h) recs) sn (Some g) (Some path) hr =
                   (0, Some (normalise_coefficients sn a)))"
proof -
  let ?g = "clear_coefficients h (set_model_size hr g)"
  obtain a where a: "gm_maxord a = max_degree hr" "gm_size a = max_degree hr + 1"
    "\<forall>rs. read_records ?g (recs @ rs) = read_records a rs"
    using read_records_well_formed [of ?g recs] assms by (auto simp add: before_reading_bounds)
  have "read_records ?g (recs @ []) = read_records a []"
    using a(3) by blast
  then have "read_records ?g recs = Inr a"
    by simp
  then have "\<forall>sn. geomag_init (file_of (Some h) recs) sn (Some g) (Some path) hr =
      (0, Some (normalise_coefficients sn a))"
    by (simp add: geomag_init_read)
  with a(1,2) show ?thesis
    by blast
qed

section \<open>The uncertainty model\<close>

text \<open>
  C2, as the code has it. \<^verbatim>\<open>geomag_calculate_uncertainty\<close> returns \<open>-1\<close> exactly when
  the time of the result lies in none of the three windows \<open>[2025, 2030]\<close>,
  \<open>[2020, 2025]\<close> and \<open>[2015, 2020)\<close>, that is exactly when the time is earlier than
  2015 or later than 2030; in every other case it returns 0.
\<close>

theorem uncertainty_fails_outside_windows:
  "(fst (geomag_calculate_uncertainty (Some res) (Some u)) = - 1) =
     (\<not> (WMM_MODEL_2025_LOWER \<le> r_time res \<and> r_time res \<le> WMM_MODEL_2025_UPPER) \<and>
      \<not> (WMM_MODEL_2020_LOWER \<le> r_time res \<and> r_time res \<le> WMM_MODEL_2020_UPPER) \<and>
      \<not> (WMM_MODEL_2015_LOWER \<le> r_time res \<and> r_time res < WMM_MODEL_2015_UPPER))
   \<and> (fst (geomag_calculate_uncertainty (Some res) (Some u)) = - 1) =
     (r_time res < 2015 \<or> 2030 < r_time res)
   \<and> (fst (geomag_calculate_uncertainty (Some res) (Some u)) = 0) =
     (2015 \<le> r_time res \<and> r_time res \<le> 2030)"
  by (auto simp add: geomag_calculate_uncertainty_def WMM_MODEL_2025_LOWER_def
      WMM_MODEL_2025_UPPER_def WMM_MODEL_2020_LOWER_def WMM_MODEL_2020_UPPER_def
      WMM_MODEL_2015_LOWER_def WMM_MODEL_2015_UPPER_def)

text \<open>
  C2, as the claim states it, fails: a result whose time is 2031 has no uncertainty
  model, and 2031 is not earlier than 2015.
\<close>

theorem uncertainty_fails_after_2030:
  "fst (geomag_calculate_uncertainty (Some (blank_result\<lparr>r_time := 2031\<rparr>))
          (Some blank_uncertainty)) = - 1
   \<and> \<not> r_time (blank_result\<lparr>r_time := 2031\<rparr>) < 2015"
  by (simp add: geomag_calculate_uncertainty_def WMM_MODEL_2025_LOWER_def
      WMM_MODEL_2025_UPPER_def WMM_MODEL_2020_LOWER_def WMM_MODEL_2020_UPPER_def
      WMM_MODEL_2015_LOWER_def WMM_MODEL_2015_UPPER_def)

text \<open>
  C8. For a result whose time lies in the window \<open>[2025, 2030]\<close> and whose
  high-resolution flag is false, \<^verbatim>\<open>geomag_calculate_uncertainty\<close> returns 0 and writes
  \<open>X = 137\<close>, \<open>Y = 89\<close>, \<open>Z = 141\<close>, \<open>H = 133\<close>, \<open>F = 138\<close> and \<open>I = 0.20\<close>, and, when the
  horizontal intensity \<open>H\<close> of the result is not 0, \<open>D = sqrt (0.26\<^sup>2 + (5417 / H)\<^sup>2)\<close>.
  (At \<open>H = 0\<close> the code's \<open>D\<close> is infinite, a value outside the reals.)
\<close>

theorem uncertainty_wmm_2025:
  assumes "2025 \<le> r_time res" and "r_time res \<le> 2030" and "\<not> r_is_high_resolution res"
  shows "\<exists>d. geomag_calculate_uncertainty (Some res) (Some u) =
           (0, Some \<lparr>u_x = 137, u_y = 89, u_z = 141, u_h = 133, u_f = 138, u_i = 0.20,
                     u_d = d\<rparr>)
         \<and> (r_h res \<noteq> 0 \<longrightarrow> d = sqrt (0.26\<^sup>2 + (5417 / r_h res)\<^sup>2))"
  using assms
  by (intro exI [of _ "sqrt (0.26 * 0.26 + (5417 / r_h res) * (5417 / r_h res))"])
    (simp add: geomag_calculate_uncertainty_def WMM_MODEL_2025_LOWER_def
      WMM_MODEL_2025_UPPER_def power2_eq_square)

theorem uncertainty_wmm_2025_witness:
  "geomag_calculate_uncertainty (Some (blank_result\<lparr>r_time := 2025.25, r_h := 18000\<rparr>))
     (Some blank_uncertainty) =
       (0, Some \<lparr>u_x = 137, u_y = 89, u_z = 141, u_h = 133, u_f = 138, u_i = 0.20,
                 u_d = sqrt (0.26\<^sup>2 + (5417 / 18000)\<^sup>2)\<rparr>)"
  using uncertainty_wmm_2025 [of "blank_result\<lparr>r_time := 2025.25, r_h := 18000\<rparr>" blank_uncertainty]
  by (auto simp add: blank_result_def)

section \<open>The date check\<close>

text \<open>
  C3. With \<open>allow_date_outside_lifespan\<close> false, \<^verbatim>\<open>geomag_calculate\<close> returns \<open>-1\<close>
  exactly when \<open>dt = time - epoch\<close> lies outside \<open>[0, 5]\<close>; with the flag true it never
  returns \<open>-1\<close>, and it returns 0 when \<open>raise_in_warning_zone\<close> is false as well.
\<close>

theorem date_check:
  "(fst (geomag_calculate (Some g) glat glon alt time False raise (Some res)) = - 1) =
     (time - gm_epoch g < 0 \<or> 5 < time - gm_epoch g)
   \<and> fst (geomag_calculate (Some g) glat glon alt time True raise (Some res)) \<noteq> - 1
   \<and> fst (geomag_calculate (Some g) glat glon alt time True False (Some res)) = 0"
proof -
  have in_range: "fst (geomag_calculate (Some g) glat glon alt time allow raise' (Some res)) \<noteq> - 1 \<and>
      (\<not> raise' \<longrightarrow> fst (geomag_calculate (Some g) glat glon alt time allow raise' (Some res)) = 0)"
    if "allow \<or> (0 \<le> time - gm_epoch g \<and> time - gm_epoch g \<le> 5)" for allow raise'
    using geomag_calculate_accepted [OF that, of glat glon alt raise' res]
    by (auto simp add: field_result_code split: if_splits)
  have out: "fst (geomag_calculate (Some g) glat glon alt time False raise (Some res)) = - 1"
    if "time - gm_epoch g < 0 \<or> 5 < time - gm_epoch g"
    using that by (simp add: geomag_calculate_rejected)
  show ?thesis
    using in_range [of False raise] in_range [of True raise] in_range [of True False] out
    by (cases "time - gm_epoch g < 0 \<or> 5 < time - gm_epoch g") auto
qed

text \<open>The sample model, six years after its epoch, as in the test of the boundary conditions.\<close>

theorem date_check_witness:
  "fst (geomag_calculate (Some loaded_model) 0 0 0 2031 False False (Some blank_result)) = - 1
   \<and> fst (geomag_calculate (Some loaded_model) 0 0 0 2031 True False (Some blank_result)) = 0"
  using date_check [of loaded_model 0 0 0 2031 False blank_result]
  by (simp add: loaded_model_facts)

text \<open>
  C10. When the date check fails, the call has written the result: the time, the
  altitude, the latitude and the longitude are those of the call, both zone flags are
  false, and the high-resolution flag says whether the degree of the model is 133. The
  other fields of the result and the model are as they were.
\<close>

theorem result_written_before_date_error:
  assumes "\<not> allow" and "time - gm_epoch g < 0 \<or> 5 < time - gm_epoch g"
  shows "geomag_calculate (Some g) glat glon alt time allow raise (Some res) =
           (- 1, Some g,
            Some (res\<lparr>r_time := time, r_alt := alt, r_glat := glat, r_glon := glon,
                    r_in_blackout_zone := False, r_in_caution_zone := False,
                    r_is_high_resolution := (gm_maxord g = 133)\<rparr>))"
  using assms
  by (simp add: geomag_calculate_rejected init_result_def WMM_SIZE_HIGH_RESOLUTION_def)

theorem result_written_before_date_error_witness:
  "geomag_calculate (Some loaded_model) 47.6205 (- 122.3493) 0 2031 False False
     (Some (blank_result\<lparr>r_in_blackout_zone := True, r_is_high_resolution := True\<rparr>)) =
     (- 1, Some loaded_model,
      Some (blank_result\<lparr>r_time := 2031, r_glat := 47.6205, r_glon := - 122.3493\<rparr>))
   \<and> blank_result\<lparr>r_time := 2031, r_glat := 47.6205, r_glon := - 122.3493\<rparr> \<noteq>
       blank_result\<lparr>r_in_blackout_zone := True, r_is_high_resolution := True\<rparr>"
  using result_written_before_date_error [of False 2031 loaded_model "47.6205" "- 122.3493" 0 False
      "blank_result\<lparr>r_in_blackout_zone := True, r_is_high_resolution := True\<rparr>"]
  by (simp add: loaded_model_facts blank_result_def)

section \<open>The zones\<close>

text \<open>
  C4. For a call that passes the date check, the result has the blackout flag exactly
  when \<open>H < 2000\<close> and the caution flag exactly when \<open>2000 \<le> H < 6000\<close>. When
  \<open>raise_in_warning_zone\<close> is true the return code is \<open>-2\<close> in the blackout zone, \<open>-3\<close> in
  the caution zone and 0 elsewhere (the flags are set all the same); when it is false
  the return code is 0.
\<close>

theorem zone_classification:
  assumes "allow \<or> (0 \<le> time - gm_epoch g \<and> time - gm_epoch g \<le> 5)"
    and "geomag_calculate (Some g) glat glon alt time allow raise (Some res) = (rc, g', Some r)"
  shows "r_in_blackout_zone r = (r_h r < BLACKOUT_ZONE)
       \<and> r_in_caution_zone r = (BLACKOUT_ZONE \<le> r_h r \<and> r_h r < CAUTION_ZONE)
       \<and> rc = (if raise then
                  (if r_h r < BLACKOUT_ZONE then - 2 else if r_h r < CAUTION_ZONE then - 3 else 0)
                else 0)"
proof -
  obtain b_x b_y b_z where
    "geomag_calculate (Some g) glat glon alt time allow raise (Some res) =
       (fst (field_result b_x b_y b_z glat glon raise (init_result g glat glon alt time res)),
        Some (fst (field_vector g glat glon alt (time - gm_epoch g))),
        Some (snd (field_result b_x b_y b_z glat glon raise (init_result g glat glon alt time res))))"
    using geomag_calculate_accepted [OF assms(1)] by blast
  with assms(2) have rc: "rc = fst (field_result b_x b_y b_z glat glon raise (init_result g glat glon alt time res))"
    and r: "r = snd (field_result b_x b_y b_z glat glon raise (init_result g glat glon alt time res))"
    by simp_all
  have "\<not> r_in_blackout_zone (init_result g glat glon alt time res)"
    and "\<not> r_in_caution_zone (init_result g glat glon alt time res)"
    by (simp_all add: init_result_def)
  then show ?thesis
    unfolding rc r BLACKOUT_ZONE_def CAUTION_ZONE_def
    by (simp add: field_result_flags field_result_code [symmetric])
qed

text \<open>
  The sample model has no field, so \<open>H = 0\<close>: under the hard-error policy the call
  returns \<open>-2\<close>, under the advisory policy 0, with the blackout flag set in both.
\<close>

theorem zone_classification_witness:
  "fst (geomag_calculate (Some loaded_model) 0 0 0 2025 False True (Some blank_result)) = - 2
   \<and> fst (geomag_calculate (Some loaded_model) 0 0 0 2025 False False (Some blank_result)) = 0
   \<and> map_option r_in_blackout_zone
        (snd (snd (geomag_calculate (Some loaded_model) 0 0 0 2025 False False (Some blank_result))))
       = Some True"
proof -
  have ok: "False \<or> (0 \<le> 2025 - gm_epoch loaded_model \<and> 2025 - gm_epoch loaded_model \<le> 5)"
    by (simp add: loaded_model_facts)
  show ?thesis
    using zone_classification [OF ok loaded_model_calculate [of 0 0 0 False True blank_result]]
      zone_classification [OF ok loaded_model_calculate [of 0 0 0 False False blank_result]]
    by (simp add: loaded_model_calculate BLACKOUT_ZONE_def)
qed

section \<open>The components of the result\<close>

text \<open>
  C7. In the result of a call that passes the date check, \<open>X\<close>, \<open>Y\<close>, \<open>Z\<close> and \<open>H\<close> are
  the projections of \<open>F\<close> along \<open>D\<close> and \<open>I\<close>, and \<open>F = sqrt (X\<^sup>2 + Y\<^sup>2 + Z\<^sup>2)\<close> and
  \<open>H = sqrt (X\<^sup>2 + Y\<^sup>2)\<close> hold; over the reals they hold exactly.
\<close>

theorem components_consistent:
  assumes "allow \<or> (0 \<le> time - gm_epoch g \<and> time - gm_epoch g \<le> 5)"
    and "geomag_calculate (Some g) glat glon alt time allow raise (Some res) = (rc, g', Some r)"
  shows "r_x r = r_f r * cos (DEG2RAD (r_d r)) * cos (DEG2RAD (r_i r))
       \<and> r_y r = r_f r * cos (DEG2RAD (r_i r)) * sin (DEG2RAD (r_d r))
       \<and> r_z r = r_f r * sin (DEG2RAD (r_i r))
       \<and> r_h r = r_f r * cos (DEG2RAD (r_i r))
       \<and> r_f r = sqrt ((r_x r)\<^sup>2 + (r_y r)\<^sup>2 + (r_z r)\<^sup>2)
       \<and> r_h r = sqrt ((r_x r)\<^sup>2 + (r_y r)\<^sup>2)"
proof -
  obtain b_x b_y b_z where
    "geomag_calculate (Some g) glat glon alt time allow raise (Some res) =
       (fst (field_result b_x b_y b_z glat glon raise (init_result g glat glon alt time res)),
        Some (fst (field_vector g glat glon alt (time - gm_epoch g))),
        Some (snd (field_result b_x b_y b_z glat glon raise (init_result g glat glon alt time res))))"
    using geomag_calculate_accepted [OF assms(1)] by blast
  with assms(2)
  have r: "r = snd (field_result b_x b_y b_z glat glon raise (init_result g glat glon alt time res))"
    by simp
  have x: "r_x r = r_f r * cos (DEG2RAD (r_d r)) * cos (DEG2RAD (r_i r))"
    and y: "r_y r = r_f r * cos (DEG2RAD (r_i r)) * sin (DEG2RAD (r_d r))"
    and z: "r_z r = r_f r * sin (DEG2RAD (r_i r))"
    and h: "r_h r = r_f r * cos (DEG2RAD (r_i r))"
    unfolding r by (rule field_result_components)+
  have f: "0 \<le> r_f r"
    unfolding r by (simp add: field_result_values)
  have "DEG2RAD (r_i r) = atan2 b_z (sqrt (b_x * b_x + b_y * b_y))"
    unfolding r by (simp add: field_result_values DEG2RAD_RAD2DEG)
  moreover have "0 \<le> sqrt (b_x * b_x + b_y * b_y)"
    by simp
  ultimately have "- (pi / 2) \<le> DEG2RAD (r_i r)" and "DEG2RAD (r_i r) \<le> pi / 2"
    using atan2_right_half [of "sqrt (b_x * b_x + b_y * b_y)" b_z] by simp_all
  then have c: "0 \<le> cos (DEG2RAD (r_i r))"
    by (rule cos_ge_zero)
  have "r_f r = sqrt ((r_x r)\<^sup>2 + (r_y r)\<^sup>2 + (r_z r)\<^sup>2)"
    unfolding x y z using reprojection(1) [OF f c] by simp
  moreover have "r_h r = sqrt ((r_x r)\<^sup>2 + (r_y r)\<^sup>2)"
    unfolding x y h using reprojection(2) [OF f c] by simp
  ultimately show ?thesis
    using x y z h by simp
qed

theorem components_consistent_witness:
  "map_option (\<lambda>r. r_f r = sqrt ((r_x r)\<^sup>2 + (r_y r)\<^sup>2 + (r_z r)\<^sup>2) \<and>
                    r_h r = sqrt ((r_x r)\<^sup>2 + (r_y r)\<^sup>2))
     (snd (snd (geomag_calculate (Some loaded_model) 47.6205 (- 122.3493) 0 2025 False False
        (Some blank_result)))) = Some True"
proof -
  have ok: "False \<or> (0 \<le> 2025 - gm_epoch loaded_model \<and> 2025 - gm_epoch loaded_model \<le> 5)"
    by (simp add: loaded_model_facts)
  show ?thesis
    using components_consistent [OF ok
        loaded_model_calculate [of "47.6205" "- 122.3493" 0 False False blank_result]]
    by (simp add: loaded_model_calculate)
qed

section \<open>The grid variation\<close>

text \<open>
  C6, as the code has it. For a call that passes the date check and whose longitude
  lies in \<open>[-180, 180]\<close>, the grid variation differs from the sentinel \<open>-999\<close> exactly
  when \<open>|latitude| \<ge> 55\<close>; it then lies in the closed interval \<open>[-180, 180]\<close>, and it is
  \<open>-999\<close> otherwise.
\<close>

theorem grid_variation_defined:
  assumes "allow \<or> (0 \<le> time - gm_epoch g \<and> time - gm_epoch g \<le> 5)"
    and "- 180 \<le> glon" and "glon \<le> 180"
    and "geomag_calculate (Some g) glat glon alt time allow raise (Some res) = (rc, g', Some r)"
  shows "(r_gv r \<noteq> - 999) = (55 \<le> \<bar>glat\<bar>)
       \<and> (55 \<le> \<bar>glat\<bar> \<longrightarrow> - 180 \<le> r_gv r \<and> r_gv r \<le> 180)
       \<and> (\<bar>glat\<bar> < 55 \<longrightarrow> r_gv r = - 999)"
proof -
  obtain b_x b_y b_z where
    "geomag_calculate (Some g) glat glon alt time allow raise (Some res) =
       (fst (field_result b_x b_y b_z glat glon raise (init_result g glat glon alt time res)),
        Some (fst (field_vector g glat glon alt (time - gm_epoch g))),
        Some (snd (field_result b_x b_y b_z glat glon raise (init_result g glat glon alt time res))))"
    using geomag_calculate_accepted [OF assms(1)] by blast
  with assms(4)
  have "r = snd (field_result b_x b_y b_z glat glon raise (init_result g glat glon alt time res))"
    by simp
  then have gv: "r_gv r = grid_variation glat glon (RAD2DEG (atan2 b_y b_x))"
    by (simp add: field_result_values)
  have d: "- 180 \<le> RAD2DEG (atan2 b_y b_x)" "RAD2DEG (atan2 b_y b_x) \<le> 180"
    using RAD2DEG_atan2_range [of b_y b_x] by simp_all
  show ?thesis
  proof (cases "55 \<le> \<bar>glat\<bar>")
    case True
    then show ?thesis
      using grid_variation_high [OF True assms(2,3) d] by (simp add: gv)
  next
    case False
    then show ?thesis
      by (simp add: gv grid_variation_low)
  qed
qed

text \<open>
  The sample model at latitude \<open>-60\<close> and longitude \<open>-120\<close>, where the declination is 0 and
  the grid variation \<open>0 - |-120|\<close>, and at a latitude below 55.
\<close>

theorem grid_variation_defined_witness:
  "map_option r_gv (snd (snd (geomag_calculate (Some loaded_model) (- 60) (- 120) 0 2025 False
      False (Some blank_result)))) = Some (- 120)
   \<and> map_option r_gv (snd (snd (geomag_calculate (Some loaded_model) 47.6205 (- 122.3493) 0 2025
      False False (Some blank_result)))) = Some (- 999)"
proof -
  have ok: "False \<or> (0 \<le> 2025 - gm_epoch loaded_model \<and> 2025 - gm_epoch loaded_model \<le> 5)"
    by (simp add: loaded_model_facts)
  show ?thesis
    using grid_variation_defined [OF ok _ _
        loaded_model_calculate [of "- 60" "- 120" 0 False False blank_result]]
      grid_variation_defined [OF ok _ _
        loaded_model_calculate [of "47.6205" "- 122.3493" 0 False False blank_result]]
    by (simp add: loaded_model_calculate grid_variation_def)
qed

text \<open>
  C6, as the claim states it, fails at the lower end of the interval. The sample model
  at latitude \<open>-60\<close> and longitude \<open>-180\<close> has the declination 0, so the grid variation is
  \<open>0 - |-180| = -180\<close>; neither adjustment applies to it, and \<open>-180\<close> is not in
  \<open>(-180, 180]\<close>. The call succeeds.
\<close>

theorem grid_variation_minus_180:
  "fst (geomag_calculate (Some loaded_model) (- 60) (- 180) 0 2025 False False (Some blank_result)) = 0
   \<and> map_option r_gv (snd (snd (geomag_calculate (Some loaded_model) (- 60) (- 180) 0 2025
        False False (Some blank_result)))) = Some (- 180)"
  by (simp add: loaded_model_calculate grid_variation_def)

section \<open>The model across an evaluation\<close>

text \<open>
  C1, as the code has it. \<^verbatim>\<open>geomag_calculate\<close> leaves every field of the model but \<open>p\<close>
  as it was: the degree, the size, the epoch, the name, the release date, the
  coefficients \<open>c\<close> and \<open>cd\<close>, the recursion factors \<open>k\<close>, and \<open>fn\<close> and \<open>fm\<close>. The table \<open>p\<close>
  may change.
\<close>

theorem model_unchanged_but_p:
  "\<exists>q. fst (snd (geomag_calculate (Some g) glat glon alt time allow raise (Some res))) =
          Some (g\<lparr>gm_p := q\<rparr>)"
proof (cases "allow \<or> (0 \<le> time - gm_epoch g \<and> time - gm_epoch g \<le> 5)")
  case True
  define fv where "fv = fst (field_vector g glat glon alt (time - gm_epoch g))"
  have "fv\<lparr>gm_p := gm_p fv\<rparr> = g\<lparr>gm_p := gm_p fv\<rparr>"
    unfolding fv_def by (rule field_vector_frame)
  moreover have "fv\<lparr>gm_p := gm_p fv\<rparr> = fv"
    by simp
  ultimately have "fst (field_vector g glat glon alt (time - gm_epoch g)) = g\<lparr>gm_p := gm_p fv\<rparr>"
    unfolding fv_def by simp
  then show ?thesis
    using geomag_calculate_accepted [OF True, of glat glon alt raise res] by auto
next
  case False
  then have "geomag_calculate (Some g) glat glon alt time allow raise (Some res) =
      (- 1, Some g, Some (init_result g glat glon alt time res))"
    by (intro geomag_calculate_rejected) auto
  then have "fst (snd (geomag_calculate (Some g) glat glon alt time allow raise (Some res))) =
      Some (g\<lparr>gm_p := gm_p g\<rparr>)"
    by simp
  then show ?thesis
    by (intro exI [of _ "gm_p g"]) simp
qed

text \<open>
  C1, as the claim states it, fails. After \<^verbatim>\<open>geomag_init\<close> the cell \<open>p[1]\<close> of the sample
  model holds 1; a successful evaluation on the equator, where the cosine \<open>ct\<close> of the
  colatitude is 0, leaves \<open>ct * p[0] = 0\<close> there (line 244), so the model the call
  returns is not the model it was given.
\<close>

theorem evaluation_writes_p:
  "fst (geomag_calculate (Some loaded_model) 0 0 0 2025 False False (Some blank_result)) = 0
   \<and> fst (snd (geomag_calculate (Some loaded_model) 0 0 0 2025 False False (Some blank_result)))
       \<noteq> Some loaded_model"
proof -
  have "gm_p (fst (field_vector loaded_model 0 0 0 0)) 1 = 0"
    using field_vector_p1 [of loaded_model 0 0 0 0]
    by (simp add: loaded_model_facts colatitude_at_equator)
  then have "fst (field_vector loaded_model 0 0 0 0) \<noteq> loaded_model"
    using loaded_model_facts(8) by auto
  then show ?thesis
    by (simp add: loaded_model_calculate)
qed

section \<open>The records of the coefficient file\<close>

text \<open>
  C5, as the code has it. In a file whose records are \<open>pre\<close>, then \<open>r\<close>, then \<open>rest\<close>:
  \<^item> when \<open>r\<close> has \<open>n = 9999\<close>, or an order \<open>m\<close> above the degree of the model, the load is
    the load of the file that ends after \<open>pre\<close>, whatever \<open>rest\<close> holds;
  \<^item> when every record of \<open>pre\<close> is well formed, that load returns 0;
  \<^item> when every record of \<open>pre\<close> is well formed and \<open>r\<close> has \<open>n \<noteq> 9999\<close>, an order that
    is not above the degree of the model, and \<open>m > n\<close>, \<open>m < 0\<close> or a degree \<open>n\<close> above the
    degree of the model (so beyond the tables), the load returns \<open>-1\<close>.
\<close>

theorem record_checks:
  "(rec_n r = 9999 \<or> max_degree hr < rec_m r \<longrightarrow>
      geomag_init (file_of (Some h) (pre @ r # rest)) sn (Some g) (Some path) hr =
      geomag_init (file_of (Some h) pre) sn (Some g) (Some path) hr)
   \<and> (list_all (well_formed_record (max_degree hr)) pre \<longrightarrow>
      fst (geomag_init (file_of (Some h) pre) sn (Some g) (Some path) hr) = 0)
   \<and> (list_all (well_formed_record (max_degree hr)) pre \<and>
      rec_n r \<noteq> 9999 \<and> rec_m r \<le> max_degree hr \<and>
      (rec_n r < rec_m r \<or> rec_m r < 0 \<or> max_degree hr < rec_n r) \<longrightarrow>
      fst (geomag_init (file_of (Some h) (pre @ r # rest)) sn (Some g) (Some path) hr) = - 1)"
proof (intro conjI impI)
  let ?g = "clear_coefficients h (set_model_size hr g)"
  show "geomag_init (file_of (Some h) (pre @ r # rest)) sn (Some g) (Some path) hr =
      geomag_init (file_of (Some h) pre) sn (Some g) (Some path) hr"
    if "rec_n r = 9999 \<or> max_degree hr < rec_m r"
    using that by (intro geomag_init_cong read_records_stop) (simp add: before_reading_bounds)
  have run: "\<exists>g'. gm_maxord g' = max_degree hr \<and> gm_size g' = max_degree hr + 1 \<and>
      (\<forall>rs. read_records ?g (pre @ rs) = read_records g' rs)"
    if "list_all (well_formed_record (max_degree hr)) pre"
    using that read_records_well_formed [of ?g pre] by (simp add: before_reading_bounds)
  show "fst (geomag_init (file_of (Some h) pre) sn (Some g) (Some path) hr) = 0"
    if wf: "list_all (well_formed_record (max_degree hr)) pre"
  proof -
    obtain g' where "\<forall>rs. read_records ?g (pre @ rs) = read_records g' rs"
      using run [OF wf] by blast
    then have "read_records ?g (pre @ []) = read_records g' []"
      by blast
    then have "read_records ?g pre = Inr g'"
      by simp
    then show ?thesis
      by (simp add: geomag_init_read)
  qed
  show "fst (geomag_init (file_of (Some h) (pre @ r # rest)) sn (Some g) (Some path) hr) = - 1"
    if bad: "list_all (well_formed_record (max_degree hr)) pre \<and>
      rec_n r \<noteq> 9999 \<and> rec_m r \<le> max_degree hr \<and>
      (rec_n r < rec_m r \<or> rec_m r < 0 \<or> max_degree hr < rec_n r)"
  proof -
    obtain g' where g': "gm_maxord g' = max_degree hr" "gm_size g' = max_degree hr + 1"
      "\<forall>rs. read_records ?g (pre @ rs) = read_records g' rs"
      using run bad by blast
    then have "read_records ?g (pre @ r # rest) = read_records g' (r # rest)"
      by blast
    also have "\<dots> = Inl g'"
      using bad g'(1,2) by auto
    finally show ?thesis
      by (simp add: geomag_init_corrupt)
  qed
qed

text \<open>
  A well-formed record followed by the end marker and one more record; and the same
  with a record whose order exceeds its degree in place of the end marker.
\<close>

theorem record_checks_witness:
  "geomag_init (file_of (Some sample_header) ([record_1_0] @ end_marker # [record_1_1]))
       (\<lambda>i. 0) (Some blank_model) (Some ''data/WMM.COF'') False =
     geomag_init (file_of (Some sample_header) [record_1_0])
       (\<lambda>i. 0) (Some blank_model) (Some ''data/WMM.COF'') False
   \<and> fst (geomag_init (file_of (Some sample_header) [record_1_0])
       (\<lambda>i. 0) (Some blank_model) (Some ''data/WMM.COF'') False) = 0
   \<and> fst (geomag_init (file_of (Some sample_header)
         ([record_1_0] @ record_1_1\<lparr>rec_m := 2\<rparr> # [record_1_1]))
       (\<lambda>i. 0) (Some blank_model) (Some ''data/WMM.COF'') False) = - 1"
  using record_checks [of end_marker False sample_header "[record_1_0]" "[record_1_1]"
      "\<lambda>i. 0" blank_model "''data/WMM.COF''"]
    record_checks [of "record_1_1\<lparr>rec_m := 2\<rparr>" False sample_header "[record_1_0]" "[record_1_1]"
      "\<lambda>i. 0" blank_model "''data/WMM.COF''"]
  by (simp add: end_marker_def record_1_0_def record_1_1_def well_formed_record_def
      max_degree_def WMM_SIZE_STANDARD_def)

text \<open>
  C5, as the claim states it, fails for an order beyond the tables. A record with
  \<open>n = m = 20\<close> in the file of a standard model (degree 12, tables of size 13) has
  \<open>m > maxord\<close>: the loop is left at line 67, before the check of line 71, and the load
  returns 0.
\<close>

theorem order_beyond_tables_is_truncation:
  "fst (geomag_init (file_of (Some sample_header) [record_1_0, record_1_1\<lparr>rec_n := 20, rec_m := 20\<rparr>])
       (\<lambda>i. 0) (Some blank_model) (Some ''data/WMM.COF'') False) = 0"
proof -
  let ?g = "clear_coefficients sample_header (set_model_size False blank_model)"
  have "read_records ?g [record_1_0, record_1_1\<lparr>rec_n := 20, rec_m := 20\<rparr>] =
      Inr (store_coefficients record_1_0 ?g)"
    by (simp add: before_reading_bounds store_coefficients_bounds max_degree_def
        WMM_SIZE_STANDARD_def record_1_0_def record_1_1_def)
  then show ?thesis
    by (simp add: geomag_init_read)
qed

section \<open>The sine coefficients of order 0\<close>

text \<open>
  C9, as the code has it. Take two files with the same header whose records agree in \<open>n\<close>,
  \<open>m\<close>, \<open>g\<close> and \<open>gDot\<close>, and in \<open>h\<close> and \<open>hDot\<close> wherever \<open>m \<noteq> 0\<close>, and load each
  of them into a structure of its own (\<open>g\<close>, \<open>g'\<close>), each load with its own contents of the
  uninitialised local array \<open>snorm\<close> (\<open>sn\<close>, \<open>sn'\<close>). The two loads return the same code, and
  the two models agree in the degree, the size, the epoch, the name, the release date, all of
  \<open>c\<close>, \<open>cd\<close> and \<open>k\<close>; after a successful load they also agree in \<open>fm[0..maxord]\<close>,
  \<open>fn[1..maxord]\<close> and the cells \<open>p[n + m * size]\<close> with \<open>0 \<le> m \<le> n \<le> maxord\<close>, which are the
  cells the load computes. When the two loads start from the same memory (\<open>sn' = sn\<close> and
  \<open>g' = g\<close>) the two models are identical.
\<close>

theorem h_ignored_at_order_zero:
  assumes "list_all2 same_but_h0 recs recs'"
  shows "\<exists>rc G G'.
     geomag_init (file_of (Some h) recs) sn (Some g) (Some path) hr = (rc, Some G) \<and>
     geomag_init (file_of (Some h) recs') sn' (Some g') (Some path') hr = (rc, Some G') \<and>
     same_core G G' \<and>
     (rc = 0 \<longrightarrow>
        (\<forall>k. 0 \<le> k \<and> k \<le> gm_maxord G \<longrightarrow> gm_fm G' k = gm_fm G k) \<and>
        (\<forall>k. 1 \<le> k \<and> k \<le> gm_maxord G \<longrightarrow> gm_fn G' k = gm_fn G k) \<and>
        (\<forall>n m. 0 \<le> m \<and> m \<le> n \<and> n \<le> gm_maxord G \<longrightarrow>
           gm_p G' (n + m * gm_size G) = gm_p G (n + m * gm_size G))) \<and>
     (sn' = sn \<and> g' = g \<longrightarrow> G' = G)"
proof -
  let ?g = "clear_coefficients h (set_model_size hr g)"
  let ?g' = "clear_coefficients h (set_model_size hr g')"
  have same: "sn' = sn \<and> g' = g \<longrightarrow>
      geomag_init (file_of (Some h) recs') sn' (Some g') (Some path') hr =
      geomag_init (file_of (Some h) recs) sn (Some g) (Some path) hr"
    using read_records_same [OF assms, of ?g]
    by (simp add: geomag_init_def load_coefficients_def file_of_def)
  consider a a' where "read_records ?g recs = Inl a" "read_records ?g' recs' = Inl a'" "same_core a a'"
    | a a' where "read_records ?g recs = Inr a" "read_records ?g' recs' = Inr a'" "same_core a a'"
    using read_records_side_by_side [OF assms same_core_before_reading [of h hr g g']] by blast
  then show ?thesis
  proof cases
    case 1
    have "geomag_init (file_of (Some h) recs) sn (Some g) (Some path) hr = (- 1, Some a)"
      and "geomag_init (file_of (Some h) recs') sn' (Some g') (Some path') hr = (- 1, Some a')"
      using 1 by (simp_all add: geomag_init_corrupt)
    then show ?thesis
      using 1(3) same by auto
  next
    case 2
    let ?G = "normalise_coefficients sn a" and ?G' = "normalise_coefficients sn' a'"
    have init: "geomag_init (file_of (Some h) recs) sn (Some g) (Some path) hr = (0, Some ?G)"
      "geomag_init (file_of (Some h) recs') sn' (Some g') (Some path') hr = (0, Some ?G')"
      using 2 by (simp_all add: geomag_init_read)
    have "same_core ?G ?G' \<and>
        (\<forall>k. 0 \<le> k \<and> k \<le> gm_maxord ?G \<longrightarrow> gm_fm ?G' k = gm_fm ?G k) \<and>
        (\<forall>k. 1 \<le> k \<and> k \<le> gm_maxord ?G \<longrightarrow> gm_fn ?G' k = gm_fn ?G k) \<and>
        (\<forall>n m. 0 \<le> m \<and> m \<le> n \<and> n \<le> gm_maxord ?G \<longrightarrow>
           gm_p ?G' (n + m * gm_size ?G) = gm_p ?G (n + m * gm_size ?G))"
      using normalise_coefficients_side_by_side [OF 2(3), of sn sn']
      by (simp add: normalise_coefficients_model)
    moreover have "sn' = sn \<and> g' = g \<longrightarrow> ?G' = ?G"
      using same init by auto
    ultimately show ?thesis
      using init by blast
  qed
qed

text \<open>
  The theorem at two records of degree 1, one of order 0 whose \<open>h\<close> and \<open>hDot\<close> are changed
  from 0 to 5 and 7: with different contents of \<open>snorm\<close> and of the structure the two loads
  return the same code and agree in \<open>c\<close> and in the cell \<open>p[1 + 1 * 13]\<close>; with the same
  contents they return the same model.
\<close>

theorem h_ignored_at_order_zero_witness:
  "fst (geomag_init (file_of (Some sample_header)
          [record_1_0\<lparr>rec_hnm := 5, rec_dhnm := 7\<rparr>, record_1_1])
        ((\<lambda>i. 0)(13 := 1)) (Some (blank_model\<lparr>gm_p := (\<lambda>i. 7)\<rparr>)) (Some ''data/WMM.COF'') False) =
   fst (geomag_init (file_of (Some sample_header) [record_1_0, record_1_1])
        (\<lambda>i. 0) (Some blank_model) (Some ''data/WMM.COF'') False)
   \<and> map_option gm_c (snd (geomag_init (file_of (Some sample_header)
          [record_1_0\<lparr>rec_hnm := 5, rec_dhnm := 7\<rparr>, record_1_1])
        ((\<lambda>i. 0)(13 := 1)) (Some (blank_model\<lparr>gm_p := (\<lambda>i. 7)\<rparr>)) (Some ''data/WMM.COF'') False)) =
     map_option gm_c (snd (geomag_init (file_of (Some sample_header) [record_1_0, record_1_1])
        (\<lambda>i. 0) (Some blank_model) (Some ''data/WMM.COF'') False))
   \<and> map_option (\<lambda>G. gm_p G 14) (snd (geomag_init (file_of (Some sample_header)
          [record_1_0\<lparr>rec_hnm := 5, rec_dhnm := 7\<rparr>, record_1_1])
        ((\<lambda>i. 0)(13 := 1)) (Some (blank_model\<lparr>gm_p := (\<lambda>i. 7)\<rparr>)) (Some ''data/WMM.COF'') False)) =
     map_option (\<lambda>G. gm_p G 14) (snd (geomag_init (file_of (Some sample_header)
          [record_1_0, record_1_1])
        (\<lambda>i. 0) (Some blank_model) (Some ''data/WMM.COF'') False))
   \<and> geomag_init (file_of (Some sample_header) [record_1_0\<lparr>rec_hnm := 5, rec_dhnm := 7\<rparr>, record_1_1])
        (\<lambda>i. 0) (Some blank_model) (Some ''data/WMM.COF'') False =
     geomag_init (file_of (Some sample_header) [record_1_0, record_1_1])
        (\<lambda>i. 0) (Some blank_model) (Some ''data/WMM.COF'') False"
proof -
  let ?recs = "[record_1_0, record_1_1]"
  let ?recs' = "[record_1_0\<lparr>rec_hnm := 5, rec_dhnm := 7\<rparr>, record_1_1]"
  have differ: "list_all2 same_but_h0 ?recs ?recs'"
    by (simp add: same_but_h0_def record_1_0_def)
  obtain a where a: "gm_maxord a = 12" "gm_size a = 13"
    "geomag_init (file_of (Some sample_header) ?recs) (\<lambda>i. 0) (Some blank_model)
       (Some ''data/WMM.COF'') False = (0, Some (normalise_coefficients (\<lambda>i. 0) a))"
    using geomag_init_well_formed [of False ?recs sample_header blank_model "''data/WMM.COF''"]
    by (auto simp add: well_formed_record_def record_1_0_def record_1_1_def max_degree_def
        WMM_SIZE_STANDARD_def)
  obtain rc G G' where
    G: "geomag_init (file_of (Some sample_header) ?recs) (\<lambda>i. 0) (Some blank_model)
          (Some ''data/WMM.COF'') False = (rc, Some G)"
    and G': "geomag_init (file_of (Some sample_header) ?recs') ((\<lambda>i. 0)(13 := 1))
          (Some (blank_model\<lparr>gm_p := (\<lambda>i. 7)\<rparr>)) (Some ''data/WMM.COF'') False = (rc, Some G')"
    and core: "same_core G G'"
    and cells: "rc = 0 \<longrightarrow> (\<forall>n m. 0 \<le> m \<and> m \<le> n \<and> n \<le> gm_maxord G \<longrightarrow>
           gm_p G' (n + m * gm_size G) = gm_p G (n + m * gm_size G))"
    using h_ignored_at_order_zero [OF differ, of sample_header "\<lambda>i. 0" blank_model
        "''data/WMM.COF''" False "(\<lambda>i. 0)(13 := 1)" "blank_model\<lparr>gm_p := (\<lambda>i. 7)\<rparr>"
        "''data/WMM.COF''"]
    by blast
  have rc: "rc = 0" and model: "gm_maxord G = 12" "gm_size G = 13"
    using a G by (simp_all add: normalise_coefficients_model)
  have "gm_p G' (1 + 1 * gm_size G) = gm_p G (1 + 1 * gm_size G)"
    using cells rc model(1) by (auto dest!: spec [of _ "1::int"])
  then have cell: "gm_p G' 14 = gm_p G 14"
    by (simp add: model(2))
  have same: "geomag_init (file_of (Some sample_header) ?recs') (\<lambda>i. 0) (Some blank_model)
        (Some ''data/WMM.COF'') False =
      geomag_init (file_of (Some sample_header) ?recs) (\<lambda>i. 0) (Some blank_model)
        (Some ''data/WMM.COF'') False"
    using h_ignored_at_order_zero [OF differ, of sample_header "\<lambda>i. 0" blank_model
        "''data/WMM.COF''" False "\<lambda>i. 0" blank_model "''data/WMM.COF''"]
    by auto
  show ?thesis
    using core cell same by (simp add: G G' same_core_def)
qed

text \<open>
  C9, as the claim states it, fails: the two models need not be identical. The local array
  \<open>snorm\<close> of \<^verbatim>\<open>load_coefficients\<close> has no initialiser, the loops of lines 93 to 122 write only
  its cells \<open>n + m * size\<close> with \<open>m \<le> n \<le> maxord\<close>, and line 127 copies the whole array into
  \<open>p\<close>. The cell 13 of a standard model (\<open>n = 0\<close>, \<open>m = 1\<close>) is never written, so \<open>p[13]\<close> is
  whatever the stack held: 1 in the first load below and 0 in the second, of two files that
  differ only in \<open>h\<close> and \<open>hDot\<close> of a record of order 0.
\<close>

theorem load_copies_uninitialised_cells:
  "geomag_init (file_of (Some sample_header) [record_1_0\<lparr>rec_hnm := 5, rec_dhnm := 7\<rparr>, record_1_1])
        ((\<lambda>i. 0)(13 := 1)) (Some blank_model) (Some ''data/WMM.COF'') False \<noteq>
   geomag_init (file_of (Some sample_header) [record_1_0, record_1_1])
        (\<lambda>i. 0) (Some blank_model) (Some ''data/WMM.COF'') False"
proof -
  obtain a where a: "gm_maxord a = 12" "gm_size a = 13"
    "\<forall>sn. geomag_init (file_of (Some sample_header) [record_1_0, record_1_1]) sn (Some blank_model)
       (Some ''data/WMM.COF'') False = (0, Some (normalise_coefficients sn a))"
    using geomag_init_well_formed [of False "[record_1_0, record_1_1]" sample_header blank_model
        "''data/WMM.COF''"]
    by (auto simp add: well_formed_record_def record_1_0_def record_1_1_def max_degree_def
        WMM_SIZE_STANDARD_def)
  obtain b where b: "gm_maxord b = 12" "gm_size b = 13"
    "\<forall>sn. geomag_init (file_of (Some sample_header)
         [record_1_0\<lparr>rec_hnm := 5, rec_dhnm := 7\<rparr>, record_1_1]) sn (Some blank_model)
       (Some ''data/WMM.COF'') False = (0, Some (normalise_coefficients sn b))"
    using geomag_init_well_formed [of False "[record_1_0\<lparr>rec_hnm := 5, rec_dhnm := 7\<rparr>, record_1_1]"
        sample_header blank_model "''data/WMM.COF''"]
    by (auto simp add: well_formed_record_def record_1_0_def record_1_1_def max_degree_def
        WMM_SIZE_STANDARD_def)
  have "gm_p (normalise_coefficients (\<lambda>i. 0) a) 13 = 0"
    using normalise_coefficients_untouched [of a 13 "\<lambda>i. 0"] a(1,2) by simp
  moreover have "gm_p (normalise_coefficients ((\<lambda>i. 0)(13 := 1)) b) 13 = 1"
    using normalise_coefficients_untouched [of b 13 "(\<lambda>i. 0)(13 := 1)"] b(1,2) by simp
  ultimately have "normalise_coefficients ((\<lambda>i. 0)(13 := 1)) b \<noteq> normalise_coefficients (\<lambda>i. 0) a"
    by auto
  then show ?thesis
    using a(3) b(3) by simp
qed

end
